theory Spec2Isabelle
  imports Main "HOL-Library.Word"
begin

section \<open>Scalar types of the graphics API\<close>

text \<open>
  \<^verbatim>\<open>renderer/ShaderProgram.h\<close> wraps shader objects, vertex buffers and shader programs of
  a native graphics driver. The integer types are the fixed-width ones of the API:
  \<open>GLuint\<close>, \<open>GLenum\<close> and \<open>GLbitfield\<close> are unsigned 32-bit, \<open>GLint\<close> and
  \<open>GLsizei\<close> signed 32-bit (a 32-bit word read with \<open>sint\<close>, so that \<open>-1\<close> is
  the word of all ones), \<open>GLboolean\<close> 8-bit, \<open>size_t\<close> and \<open>uintptr_t\<close>
  unsigned 64-bit. A \<open>GLfloat\<close> is only ever handed on to the driver, so it is kept
  as its 32-bit pattern.
\<close>

type_synonym GLuint = "32 word"
type_synonym GLenum = "32 word"
type_synonym GLbitfield = "32 word"
type_synonym GLint = "32 word"
type_synonym GLsizei = "32 word"
type_synonym GLboolean = "8 word"
type_synonym GLfloat = "32 word"
type_synonym size_t = "64 word"
type_synonym uintptr_t = "64 word"

text \<open>The enumerants the file uses, with their values in the API's headers.\<close>

definition GL_FALSE :: GLboolean where "GL_FALSE = 0"
definition GL_TRUE :: GLint where "GL_TRUE = 1"
definition GL_ARRAY_BUFFER :: GLenum where "GL_ARRAY_BUFFER = 0x8892"
definition GL_STREAM_DRAW :: GLenum where "GL_STREAM_DRAW = 0x88E0"
definition GL_MAP_WRITE_BIT :: GLbitfield where "GL_MAP_WRITE_BIT = 0x0002"
definition GL_MAP_UNSYNCHRONIZED_BIT :: GLbitfield where "GL_MAP_UNSYNCHRONIZED_BIT = 0x0020"
definition GL_COMPILE_STATUS :: GLenum where "GL_COMPILE_STATUS = 0x8B81"
definition GL_LINK_STATUS :: GLenum where "GL_LINK_STATUS = 0x8B82"

text \<open>
  \<open>Shader\<close> is a template over \<open>kType\<close> with a static assertion that admits the two
  shader kinds only.
\<close>

datatype shader_kind = GL_VERTEX_SHADER | GL_FRAGMENT_SHADER

section \<open>The driver: calls and answers\<close>

text \<open>
  Every \<open>dgl...\<close> function is a call into the driver. The model keeps the calls made so
  far as a list, oldest first, and threads it through every operation. \<open>'v\<close> is the
  vertex type \<open>V\<close>. \<open>CopyToMapped p vs\<close> is not a driver call: it is the
  \<open>std::copy\<close> of the vertices \<open>vs\<close> to the address \<open>p\<close> that
  \<open>dglMapBufferRange\<close> returned.
\<close>

datatype 'v gl_call =
    GenVertexArrays GLsizei
  | GenBuffers GLsizei
  | BindVertexArray GLuint
  | BindBuffer GLenum GLuint
  | BufferData GLenum size_t "'v list option" GLenum
  | EnableVertexAttribArray GLuint
  | VertexAttribPointer GLuint GLint GLenum GLboolean GLsizei uintptr_t
  | BindAttribLocation GLuint GLuint string
  | BufferSubData GLenum size_t size_t "'v list"
  | MapBufferRange GLenum size_t size_t GLbitfield
  | CopyToMapped uintptr_t "'v list"
  | UnmapBuffer GLenum
  | DeleteBuffers GLsizei GLuint
  | DeleteVertexArrays GLsizei GLuint
  | CreateShader shader_kind
  | ShaderSource GLuint GLsizei string GLint
  | CompileShader GLuint
  | GetShaderiv GLuint GLenum
  | GetShaderInfoLog GLuint GLsizei
  | DeleteShader GLuint
  | CreateProgram
  | AttachShader GLuint GLuint
  | LinkProgram GLuint
  | GetProgramiv GLuint GLenum
  | GetProgramInfoLog GLuint GLsizei
  | UseProgram GLuint
  | GetUniformLocation GLuint string
  | UniformMatrix4fv GLint GLsizei GLboolean "GLfloat list"
  | Uniform1i GLint GLint
  | Uniform1f GLint GLfloat
  | Uniform4f GLint GLfloat GLfloat GLfloat GLfloat
  | DeleteProgram GLuint

text \<open>
  What the driver answers is not decided by this file. A driver is any family of answer
  functions; each may depend on all the calls made before (the driver's state) and on
  the arguments of the call. For the two info-log queries the answer is the text the
  driver wrote into the caller's buffer, that is the first \<open>log_length\<close> characters of
  \<open>message\<close>.
\<close>

record 'v driver =
  GenVertexArrays_ret :: "'v gl_call list \<Rightarrow> GLuint"
  GenBuffers_ret :: "'v gl_call list \<Rightarrow> GLuint"
  MapBufferRange_ret :: "'v gl_call list \<Rightarrow> GLenum \<Rightarrow> size_t \<Rightarrow> size_t \<Rightarrow> GLbitfield \<Rightarrow> uintptr_t"
  CreateShader_ret :: "'v gl_call list \<Rightarrow> shader_kind \<Rightarrow> GLuint"
  GetShaderiv_ret :: "'v gl_call list \<Rightarrow> GLuint \<Rightarrow> GLenum \<Rightarrow> GLint"
  GetShaderInfoLog_ret :: "'v gl_call list \<Rightarrow> GLuint \<Rightarrow> GLsizei \<Rightarrow> string"
  CreateProgram_ret :: "'v gl_call list \<Rightarrow> GLuint"
  GetProgramiv_ret :: "'v gl_call list \<Rightarrow> GLuint \<Rightarrow> GLenum \<Rightarrow> GLint"
  GetProgramInfoLog_ret :: "'v gl_call list \<Rightarrow> GLuint \<Rightarrow> GLsizei \<Rightarrow> string"
  GetUniformLocation_ret :: "'v gl_call list \<Rightarrow> GLuint \<Rightarrow> string \<Rightarrow> GLint"

section \<open>Errors\<close>

text \<open>
  The file throws \<open>std::runtime_error\<close> with a message; \<open>ASSERT\<close> in \<open>Shader::id\<close>
  is the second way an operation can stop.
\<close>

datatype error = runtime_error string | assertion_failure

section \<open>MoveOnlyHolder\<close>

text \<open>
  Modelled from the spec: \<^verbatim>\<open>holder.h\<close>, which declares \<open>MoveOnlyHolder<T, Deleter>\<close>, is
  not among the sources. The spec says of the wrappers that each "owns a native handle;
  destroyed when the wrapper is destroyed", and that GPU object deletion is tied to
  C++ object destruction. So a holder is the handle it holds, and destroying the holder
  runs its deleter on that handle. The spec does not say whether a holder of the zero
  handle skips its deleter; here it runs it. Moving a holder is not modelled: nothing
  in \<^verbatim>\<open>ShaderProgram.h\<close> moves one.
\<close>

definition MoveOnlyHolder_dtor ::
  "(GLuint \<Rightarrow> 'v gl_call list \<Rightarrow> 'v gl_call list) \<Rightarrow> GLuint \<Rightarrow> 'v gl_call list \<Rightarrow> 'v gl_call list" where
  "MoveOnlyHolder_dtor Deleter h tr = Deleter h tr"

section \<open>Shader\<close>

text \<open>
  A name cannot end in an underscore here, so a member \<open>x_\<close> of the source is written
  \<open>x'\<close>, prefixed with its class where two classes use the same member name.
\<close>

record Shader =
  Shader_id' :: GLuint

definition DeleteShader_fn :: "GLuint \<Rightarrow> 'v gl_call list \<Rightarrow> 'v gl_call list" where
  "DeleteShader_fn h tr = tr @ [DeleteShader h]"

definition Shader_dtor :: "Shader \<Rightarrow> 'v gl_call list \<Rightarrow> 'v gl_call list" where
  "Shader_dtor sh tr = MoveOnlyHolder_dtor DeleteShader_fn (Shader_id' sh) tr"

text \<open>
  The constructor. A throw leaves the constructor after the member \<open>id_\<close> was built, so
  the holder is destroyed on the way out.
\<close>

definition Shader_ctor ::
  "'v driver \<Rightarrow> shader_kind \<Rightarrow> string \<Rightarrow> 'v gl_call list \<Rightarrow> (error + Shader) \<times> 'v gl_call list" where
  "Shader_ctor drv kType src tr0 =
     (let h = CreateShader_ret drv tr0 kType;
          tr1 = tr0 @ [CreateShader kType]
      in if h = 0 then
           (Inl (runtime_error ''failed to create shader''), MoveOnlyHolder_dtor DeleteShader_fn h tr1)
         else
           let srclen = (word_of_nat (length src) :: GLint);
               tr2 = tr1 @ [ShaderSource h 1 src srclen];
               tr3 = tr2 @ [CompileShader h];
               compile_result = GetShaderiv_ret drv tr3 h GL_COMPILE_STATUS;
               tr4 = tr3 @ [GetShaderiv h GL_COMPILE_STATUS]
           in if compile_result \<noteq> GL_TRUE then
                let message = GetShaderInfoLog_ret drv tr4 h 1024;
                    tr5 = tr4 @ [GetShaderInfoLog h 1024]
                in (Inl (runtime_error message), MoveOnlyHolder_dtor DeleteShader_fn h tr5)
              else (Inr \<lparr>Shader_id' = h\<rparr>, tr4))"

definition Shader_id :: "Shader \<Rightarrow> error + GLuint" where
  "Shader_id sh = (if Shader_id' sh \<noteq> 0 then Inr (Shader_id' sh) else Inl assertion_failure)"


section \<open>VertexAttrib and vertexAttrib\<close>

record VertexAttrib =
  attr_size :: GLint
  attr_type :: GLenum
  attr_normalized :: GLboolean
  attr_offset :: uintptr_t
  attr_name :: string

text \<open>
  \<open>vertexAttrib\<close> builds a local \<open>EnclosingType e\<close> and subtracts the address of \<open>e\<close>
  from the address of \<open>e.*member\<close>, both as \<open>uintptr_t\<close>. A pointer to a data member
  is the byte offset of the member in its class, so \<open>&(e.*member)\<close> is the address of
  \<open>e\<close> plus \<open>member\<close>. The address \<open>addr_e\<close> at which \<open>e\<close> happens to live is an
  argument of the model.
\<close>

definition vertexAttrib ::
  "uintptr_t \<Rightarrow> GLint \<Rightarrow> GLenum \<Rightarrow> GLboolean \<Rightarrow> uintptr_t \<Rightarrow> string \<Rightarrow> VertexAttrib" where
  "vertexAttrib addr_e sz ty norm member nm =
     \<lparr>attr_size = sz,
      attr_type = ty,
      attr_normalized = norm,
      attr_offset = (addr_e + member) - addr_e,
      attr_name = nm\<rparr>"

section \<open>VertexBuffer\<close>

record VertexBuffer =
  vao' :: GLuint
  VertexBuffer_vbo' :: GLuint

definition bind :: "VertexBuffer \<Rightarrow> 'v gl_call list \<Rightarrow> 'v gl_call list" where
  "bind vb tr = tr @ [BindBuffer GL_ARRAY_BUFFER (VertexBuffer_vbo' vb)]"

definition DeleteBuffer :: "GLuint \<Rightarrow> 'v gl_call list \<Rightarrow> 'v gl_call list" where
  "DeleteBuffer h tr = tr @ [DeleteBuffers 1 h]"

definition DeleteVertexArray :: "GLuint \<Rightarrow> 'v gl_call list \<Rightarrow> 'v gl_call list" where
  "DeleteVertexArray h tr = tr @ [DeleteVertexArrays 1 h]"

text \<open>
  The loop of the constructor over \<open>attribs\<close>, with the index \<open>i\<close> counting up as a
  \<open>size_t\<close> and narrowed to \<open>GLuint\<close> at each call; \<open>szV\<close> is \<open>sizeof(V)\<close>.
\<close>

fun attrib_loop ::
  "GLuint \<Rightarrow> size_t \<Rightarrow> size_t \<Rightarrow> VertexAttrib list \<Rightarrow> 'v gl_call list \<Rightarrow> 'v gl_call list" where
  "attrib_loop program szV i [] tr = tr"
| "attrib_loop program szV i (a # rest) tr =
     attrib_loop program szV (i + 1) rest
       (tr @ [EnableVertexAttribArray (ucast i),
              VertexAttribPointer (ucast i) (attr_size a) (attr_type a) (attr_normalized a)
                (ucast szV) (attr_offset a),
              BindAttribLocation program (ucast i) (attr_name a)])"

definition VertexBuffer_ctor ::
  "'v driver \<Rightarrow> size_t \<Rightarrow> GLuint \<Rightarrow> VertexAttrib list \<Rightarrow> size_t \<Rightarrow> GLenum \<Rightarrow> 'v list option
   \<Rightarrow> 'v gl_call list \<Rightarrow> VertexBuffer \<times> 'v gl_call list" where
  "VertexBuffer_ctor drv szV program attribs vertexCount bufferType initialData tr0 =
     (let vao = GenVertexArrays_ret drv tr0;
          tr1 = tr0 @ [GenVertexArrays 1];
          vbo = GenBuffers_ret drv tr1;
          tr2 = tr1 @ [GenBuffers 1];
          vb = \<lparr>vao' = vao, VertexBuffer_vbo' = vbo\<rparr>;
          tr3 = tr2 @ [BindVertexArray vao];
          tr4 = bind vb tr3;
          tr5 = tr4 @ [BufferData GL_ARRAY_BUFFER (vertexCount * szV) initialData bufferType]
      in (vb, attrib_loop program szV 0 attribs tr5))"

definition UpdateData ::
  "size_t \<Rightarrow> VertexBuffer \<Rightarrow> size_t \<Rightarrow> size_t \<Rightarrow> 'v list \<Rightarrow> 'v gl_call list \<Rightarrow> 'v gl_call list" where
  "UpdateData szV vb vtx_offset vtx_count vertices tr =
     bind vb tr @ [BufferSubData GL_ARRAY_BUFFER (vtx_offset * szV) (vtx_count * szV) vertices]"

text \<open>Members are destroyed in the reverse of their declaration: \<open>vbo_\<close>, then \<open>vao_\<close>.\<close>

definition VertexBuffer_dtor :: "VertexBuffer \<Rightarrow> 'v gl_call list \<Rightarrow> 'v gl_call list" where
  "VertexBuffer_dtor vb tr =
     MoveOnlyHolder_dtor DeleteVertexArray (vao' vb)
       (MoveOnlyHolder_dtor DeleteBuffer (VertexBuffer_vbo' vb) tr)"

section \<open>OrphaningVertexBuffer\<close>

record OrphaningVertexBuffer = VertexBuffer +
  nextVertex' :: size_t

definition kVertexCount :: size_t where
  "kVertexCount = push_bit 16 1"

definition kBufferType :: GLenum where
  "kBufferType = GL_STREAM_DRAW"

definition OrphaningVertexBuffer_ctor ::
  "'v driver \<Rightarrow> size_t \<Rightarrow> GLuint \<Rightarrow> VertexAttrib list \<Rightarrow> 'v gl_call list
   \<Rightarrow> OrphaningVertexBuffer \<times> 'v gl_call list" where
  "OrphaningVertexBuffer_ctor drv szV program attribs tr0 =
     (let (vb, tr1) = VertexBuffer_ctor drv szV program attribs kVertexCount kBufferType None tr0
      in (\<lparr>vao' = vao' vb, VertexBuffer_vbo' = VertexBuffer_vbo' vb, nextVertex' = 0\<rparr>, tr1))"

text \<open>
  \<open>AddVertexData(begin, end)\<close>: the range is the list \<open>vs\<close>, and \<open>dist\<close> is its length.
  \<open>nextVertex_ + dist\<close> is computed in \<open>size_t\<close>, so it wraps at \<open>2 ^ 64\<close>. The address
  the driver returns for the mapping is used as it is, with no check, as the target of
  the copy.
\<close>

definition AddVertexData ::
  "'v driver \<Rightarrow> size_t \<Rightarrow> OrphaningVertexBuffer \<Rightarrow> 'v list \<Rightarrow> 'v gl_call list
   \<Rightarrow> size_t \<times> OrphaningVertexBuffer \<times> 'v gl_call list" where
  "AddVertexData drv szV b vs tr0 =
     (let tr1 = bind (VertexBuffer.truncate b) tr0;
          dist = (word_of_nat (length vs) :: size_t);
          (b1, tr2) =
            (if nextVertex' b + dist \<ge> kVertexCount
             then (b\<lparr>nextVertex' := 0\<rparr>,
                   tr1 @ [BufferData GL_ARRAY_BUFFER (kVertexCount * szV) None kBufferType])
             else (b, tr1));
          start = nextVertex' b1;
          access = or GL_MAP_WRITE_BIT GL_MAP_UNSYNCHRONIZED_BIT;
          mapped = MapBufferRange_ret drv tr2 GL_ARRAY_BUFFER (start * szV) (dist * szV) access;
          tr3 = tr2 @ [MapBufferRange GL_ARRAY_BUFFER (start * szV) (dist * szV) access];
          tr4 = tr3 @ [CopyToMapped mapped vs];
          tr5 = tr4 @ [UnmapBuffer GL_ARRAY_BUFFER]
      in (start, b1\<lparr>nextVertex' := nextVertex' b1 + dist\<rparr>, tr5))"

definition OrphaningVertexBuffer_dtor :: "OrphaningVertexBuffer \<Rightarrow> 'v gl_call list \<Rightarrow> 'v gl_call list" where
  "OrphaningVertexBuffer_dtor b tr = VertexBuffer_dtor (VertexBuffer.truncate b) tr"


section \<open>ShaderProgram\<close>

record ShaderProgram =
  ShaderProgram_id' :: GLuint
  vertex' :: Shader
  fragment' :: Shader
  ShaderProgram_vbo' :: OrphaningVertexBuffer
  uniform_cache' :: "string \<rightharpoonup> GLint"

definition DeleteProgram_fn :: "GLuint \<Rightarrow> 'v gl_call list \<Rightarrow> 'v gl_call list" where
  "DeleteProgram_fn h tr = tr @ [DeleteProgram h]"

text \<open>
  Destruction of a program destroys its members in the reverse of their declaration:
  the cache (no driver call), \<open>vbo_\<close>, \<open>fragment_\<close>, \<open>vertex_\<close>, \<open>id_\<close>.
\<close>

definition ShaderProgram_dtor :: "ShaderProgram \<Rightarrow> 'v gl_call list \<Rightarrow> 'v gl_call list" where
  "ShaderProgram_dtor p tr =
     MoveOnlyHolder_dtor DeleteProgram_fn (ShaderProgram_id' p)
       (Shader_dtor (vertex' p)
         (Shader_dtor (fragment' p)
           (OrphaningVertexBuffer_dtor (ShaderProgram_vbo' p) tr)))"

text \<open>
  The body of the constructor, which runs once all members are built. It returns the
  error it throws, if any.
\<close>

definition ShaderProgram_ctor_body ::
  "'v driver \<Rightarrow> ShaderProgram \<Rightarrow> 'v gl_call list \<Rightarrow> error option \<times> 'v gl_call list" where
  "ShaderProgram_ctor_body drv p tr4 =
     (let pid = ShaderProgram_id' p
      in if pid = 0 then (Some (runtime_error ''error creating GL program''), tr4)
         else (case Shader_id (vertex' p) of
           Inl e \<Rightarrow> (Some e, tr4)
         | Inr vid \<Rightarrow>
             (let tr5 = tr4 @ [AttachShader pid vid]
              in (case Shader_id (fragment' p) of
                Inl e \<Rightarrow> (Some e, tr5)
              | Inr fid \<Rightarrow>
                 (let tr6 = tr5 @ [AttachShader pid fid];
                      tr7 = tr6 @ [LinkProgram pid];
                      link_result = GetProgramiv_ret drv tr7 pid GL_LINK_STATUS;
                      tr8 = tr7 @ [GetProgramiv pid GL_LINK_STATUS]
                  in if link_result \<noteq> GL_TRUE then
                       (let message = GetProgramInfoLog_ret drv tr8 pid 1024;
                            tr9 = tr8 @ [GetProgramInfoLog pid 1024]
                        in (Some (runtime_error message), tr9))
                     else (None, tr8))))))"

text \<open>
  The members are initialised in the order \<open>id_\<close>, \<open>vertex_\<close>, \<open>fragment_\<close>, \<open>vbo_\<close>,
  and only then does the body test \<open>id_\<close>. When a member's constructor or the body
  throws, the members built so far are destroyed, last built first.
\<close>

definition ShaderProgram_ctor ::
  "'v driver \<Rightarrow> size_t \<Rightarrow> string \<Rightarrow> string \<Rightarrow> VertexAttrib list \<Rightarrow> 'v gl_call list
   \<Rightarrow> (error + ShaderProgram) \<times> 'v gl_call list" where
  "ShaderProgram_ctor drv szV vertexSrc fragmentSrc attribs tr0 =
     (let pid = CreateProgram_ret drv tr0;
          tr1 = tr0 @ [CreateProgram]
      in case Shader_ctor drv GL_VERTEX_SHADER vertexSrc tr1 of
           (Inl e, tr2) \<Rightarrow> (Inl e, MoveOnlyHolder_dtor DeleteProgram_fn pid tr2)
         | (Inr vertex, tr2) \<Rightarrow>
             (case Shader_ctor drv GL_FRAGMENT_SHADER fragmentSrc tr2 of
                (Inl e, tr3) \<Rightarrow>
                  (Inl e, MoveOnlyHolder_dtor DeleteProgram_fn pid (Shader_dtor vertex tr3))
              | (Inr fragment, tr3) \<Rightarrow>
                  (let (vbo, tr4) = OrphaningVertexBuffer_ctor drv szV pid attribs tr3;
                       p = \<lparr>ShaderProgram_id' = pid, vertex' = vertex, fragment' = fragment,
                            ShaderProgram_vbo' = vbo, uniform_cache' = Map.empty\<rparr>
                   in (case ShaderProgram_ctor_body drv p tr4 of
                         (Some e, tr5) \<Rightarrow> (Inl e, ShaderProgram_dtor p tr5)
                       | (None, tr5) \<Rightarrow> (Inr p, tr5)))))"

definition Use :: "ShaderProgram \<Rightarrow> 'v gl_call list \<Rightarrow> 'v gl_call list" where
  "Use p tr = tr @ [UseProgram (ShaderProgram_id' p)]"

definition Unuse :: "ShaderProgram \<Rightarrow> 'v gl_call list \<Rightarrow> 'v gl_call list" where
  "Unuse p tr = tr @ [UseProgram 0]"

definition addVertexData ::
  "'v driver \<Rightarrow> size_t \<Rightarrow> ShaderProgram \<Rightarrow> 'v list \<Rightarrow> 'v gl_call list
   \<Rightarrow> size_t \<times> ShaderProgram \<times> 'v gl_call list" where
  "addVertexData drv szV p vs tr =
     (let (start, b, tr1) = AddVertexData drv szV (ShaderProgram_vbo' p) vs tr
      in (start, p\<lparr>ShaderProgram_vbo' := b\<rparr>, tr1))"

text \<open>
  \<open>std::unordered_map::emplace\<close> inserts only when the key is absent; the value it
  returns here is \<open>.first->second\<close>, the value stored under the key afterwards.
\<close>

definition emplace :: "('k \<rightharpoonup> 'a) \<Rightarrow> 'k \<Rightarrow> 'a \<Rightarrow> ('k \<rightharpoonup> 'a) \<times> 'a" where
  "emplace m k v = (case m k of None \<Rightarrow> (m(k \<mapsto> v), v) | Some v' \<Rightarrow> (m, v'))"

text \<open>
  \<open>getUniformId\<close> changes the cache and then may throw, so the program after the call
  is returned next to the result, also when the result is an error.
\<close>

definition getUniformId ::
  "'v driver \<Rightarrow> ShaderProgram \<Rightarrow> string \<Rightarrow> 'v gl_call list
   \<Rightarrow> (error + GLint) \<times> ShaderProgram \<times> 'v gl_call list" where
  "getUniformId drv p nm tr =
     (case uniform_cache' p nm of
        Some loc \<Rightarrow> (Inr loc, p, tr)
      | None \<Rightarrow>
          let loc = GetUniformLocation_ret drv tr (ShaderProgram_id' p) nm;
              tr1 = tr @ [GetUniformLocation (ShaderProgram_id' p) nm];
              (cache, second) = emplace (uniform_cache' p) nm loc;
              p1 = p\<lparr>uniform_cache' := cache\<rparr>
          in if second \<noteq> - 1 then (Inr second, p1, tr1)
             else (Inl (runtime_error (''uniform '' @ nm @ '' nonexistent or inactive'')), p1, tr1))"

definition setUniformMat4f ::
  "'v driver \<Rightarrow> ShaderProgram \<Rightarrow> string \<Rightarrow> GLfloat list \<Rightarrow> 'v gl_call list
   \<Rightarrow> (error + unit) \<times> ShaderProgram \<times> 'v gl_call list" where
  "setUniformMat4f drv p nm matrix tr =
     (case getUniformId drv p nm tr of
        (Inl e, p1, tr1) \<Rightarrow> (Inl e, p1, tr1)
      | (Inr loc, p1, tr1) \<Rightarrow> (Inr (), p1, tr1 @ [UniformMatrix4fv loc 1 GL_FALSE matrix]))"

definition setUniform1i ::
  "'v driver \<Rightarrow> ShaderProgram \<Rightarrow> string \<Rightarrow> GLint \<Rightarrow> 'v gl_call list
   \<Rightarrow> (error + unit) \<times> ShaderProgram \<times> 'v gl_call list" where
  "setUniform1i drv p nm val tr =
     (case getUniformId drv p nm tr of
        (Inl e, p1, tr1) \<Rightarrow> (Inl e, p1, tr1)
      | (Inr loc, p1, tr1) \<Rightarrow> (Inr (), p1, tr1 @ [Uniform1i loc val]))"

definition setUniform1f ::
  "'v driver \<Rightarrow> ShaderProgram \<Rightarrow> string \<Rightarrow> GLfloat \<Rightarrow> 'v gl_call list
   \<Rightarrow> (error + unit) \<times> ShaderProgram \<times> 'v gl_call list" where
  "setUniform1f drv p nm val tr =
     (case getUniformId drv p nm tr of
        (Inl e, p1, tr1) \<Rightarrow> (Inl e, p1, tr1)
      | (Inr loc, p1, tr1) \<Rightarrow> (Inr (), p1, tr1 @ [Uniform1f loc val]))"

definition setUniform4fv ::
  "'v driver \<Rightarrow> ShaderProgram \<Rightarrow> string \<Rightarrow> GLfloat \<Rightarrow> GLfloat \<Rightarrow> GLfloat \<Rightarrow> GLfloat
   \<Rightarrow> 'v gl_call list \<Rightarrow> (error + unit) \<times> ShaderProgram \<times> 'v gl_call list" where
  "setUniform4fv drv p nm f0 f1 f2 f3 tr =
     (case getUniformId drv p nm tr of
        (Inl e, p1, tr1) \<Rightarrow> (Inl e, p1, tr1)
      | (Inr loc, p1, tr1) \<Rightarrow> (Inr (), p1, tr1 @ [Uniform4f loc f0 f1 f2 f3]))"

subsection \<open>Sequences of calls on one program\<close>

text \<open>
  The public member functions of \<open>ShaderProgram\<close>, as the calls a client can make on a
  program it holds. A client that catches a thrown error still holds the program and
  can go on calling it, so a sequence of calls runs on after an error.
\<close>

datatype 'v ShaderProgram_call =
    Call_Use
  | Call_Unuse
  | Call_addVertexData "'v list"
  | Call_setUniformMat4f string "GLfloat list"
  | Call_setUniform1i string GLint
  | Call_setUniform1f string GLfloat
  | Call_setUniform4fv string GLfloat GLfloat GLfloat GLfloat

datatype call_result = Returned | Returned_start size_t | Thrown error

definition of_set_result :: "error + unit \<Rightarrow> call_result" where
  "of_set_result r = (case r of Inl e \<Rightarrow> Thrown e | Inr _ \<Rightarrow> Returned)"

fun do_call ::
  "'v driver \<Rightarrow> size_t \<Rightarrow> 'v ShaderProgram_call \<Rightarrow> ShaderProgram \<Rightarrow> 'v gl_call list
   \<Rightarrow> call_result \<times> ShaderProgram \<times> 'v gl_call list" where
  "do_call drv szV Call_Use p tr = (Returned, p, Use p tr)"
| "do_call drv szV Call_Unuse p tr = (Returned, p, Unuse p tr)"
| "do_call drv szV (Call_addVertexData vs) p tr =
     (let (start, p1, tr1) = addVertexData drv szV p vs tr in (Returned_start start, p1, tr1))"
| "do_call drv szV (Call_setUniformMat4f nm matrix) p tr =
     (let (r, p1, tr1) = setUniformMat4f drv p nm matrix tr in (of_set_result r, p1, tr1))"
| "do_call drv szV (Call_setUniform1i nm val) p tr =
     (let (r, p1, tr1) = setUniform1i drv p nm val tr in (of_set_result r, p1, tr1))"
| "do_call drv szV (Call_setUniform1f nm val) p tr =
     (let (r, p1, tr1) = setUniform1f drv p nm val tr in (of_set_result r, p1, tr1))"
| "do_call drv szV (Call_setUniform4fv nm f0 f1 f2 f3) p tr =
     (let (r, p1, tr1) = setUniform4fv drv p nm f0 f1 f2 f3 tr in (of_set_result r, p1, tr1))"

fun do_calls ::
  "'v driver \<Rightarrow> size_t \<Rightarrow> 'v ShaderProgram_call list \<Rightarrow> ShaderProgram \<Rightarrow> 'v gl_call list
   \<Rightarrow> call_result list \<times> ShaderProgram \<times> 'v gl_call list" where
  "do_calls drv szV [] p tr = ([], p, tr)"
| "do_calls drv szV (c # cs) p tr =
     (let (r, p1, tr1) = do_call drv szV c p tr;
          (rs, p2, tr2) = do_calls drv szV cs p1 tr1
      in (r # rs, p2, tr2))"


subsection \<open>Sequences of calls on one buffer\<close>

text \<open>
  A range handed to \<open>AddVertexData\<close> has a distance that fits \<open>ptrdiff_t\<close>, the type
  \<open>std::distance\<close> returns.
\<close>

definition valid_range :: "'v list \<Rightarrow> bool" where
  "valid_range vs = (length vs < 2 ^ 63)"

fun AddVertexData_seq ::
  "'v driver \<Rightarrow> size_t \<Rightarrow> 'v list list \<Rightarrow> OrphaningVertexBuffer \<Rightarrow> 'v gl_call list
   \<Rightarrow> OrphaningVertexBuffer \<times> 'v gl_call list" where
  "AddVertexData_seq drv szV [] b tr = (b, tr)"
| "AddVertexData_seq drv szV (vs # rest) b tr =
     (let (start, b1, tr1) = AddVertexData drv szV b vs tr
      in AddVertexData_seq drv szV rest b1 tr1)"

section \<open>Observations on the list of calls\<close>

fun is_delete :: "'v gl_call \<Rightarrow> bool" where
  "is_delete (DeleteBuffers n h) = True"
| "is_delete (DeleteVertexArrays n h) = True"
| "is_delete (DeleteShader h) = True"
| "is_delete (DeleteProgram h) = True"
| "is_delete c = False"

text \<open>
  The calls by which the file asks the driver to make, build or look up something,
  as opposed to those that configure, query status or clean up. A step that is tried
  again shows as a second such call.
\<close>

fun is_attempt :: "'v gl_call \<Rightarrow> bool" where
  "is_attempt (CreateShader k) = True"
| "is_attempt (CompileShader h) = True"
| "is_attempt CreateProgram = True"
| "is_attempt (LinkProgram h) = True"
| "is_attempt (GetUniformLocation h nm) = True"
| "is_attempt c = False"

text \<open>The calls made since the list of calls was \<open>tr0\<close>.\<close>

definition calls_since :: "'v gl_call list \<Rightarrow> 'v gl_call list \<Rightarrow> 'v gl_call list" where
  "calls_since tr0 tr = drop (length tr0) tr"

section \<open>Example drivers\<close>

text \<open>
  A driver on which everything succeeds and whose linked program has one active
  uniform, \<open>u\<close>, at location 5; and variants of it on which one step fails.
\<close>

definition driver_ok :: "nat driver" where
  "driver_ok =
     \<lparr>GenVertexArrays_ret = (\<lambda>tr. 7),
      GenBuffers_ret = (\<lambda>tr. 8),
      MapBufferRange_ret = (\<lambda>tr target off len access. 4096 + off),
      CreateShader_ret = (\<lambda>tr k. case k of GL_VERTEX_SHADER \<Rightarrow> 1 | GL_FRAGMENT_SHADER \<Rightarrow> 2),
      GetShaderiv_ret = (\<lambda>tr h pname. 1),
      GetShaderInfoLog_ret = (\<lambda>tr h n. []),
      CreateProgram_ret = (\<lambda>tr. 3),
      GetProgramiv_ret = (\<lambda>tr h pname. 1),
      GetProgramInfoLog_ret = (\<lambda>tr h n. []),
      GetUniformLocation_ret = (\<lambda>tr h nm. if nm = ''u'' then 5 else - 1)\<rparr>"

definition driver_no_shader :: "nat driver" where
  "driver_no_shader =
     driver_ok\<lparr>CreateShader_ret := (\<lambda>tr k. 0),
               GetShaderInfoLog_ret := (\<lambda>tr h n. ''out of memory'')\<rparr>"

definition driver_bad_compile :: "nat driver" where
  "driver_bad_compile =
     driver_ok\<lparr>GetShaderiv_ret := (\<lambda>tr h pname. 0),
               GetShaderInfoLog_ret := (\<lambda>tr h n. ''0:1: syntax error'')\<rparr>"

definition driver_bad_link :: "nat driver" where
  "driver_bad_link =
     driver_ok\<lparr>GetProgramiv_ret := (\<lambda>tr h pname. 0),
               GetProgramInfoLog_ret := (\<lambda>tr h n. ''unresolved varying'')\<rparr>"

definition driver_no_program :: "nat driver" where
  "driver_no_program =
     driver_ok\<lparr>CreateProgram_ret := (\<lambda>tr. 0),
               GetProgramInfoLog_ret := (\<lambda>tr h n. ''out of memory'')\<rparr>"

definition driver_bad_fragment :: "nat driver" where
  "driver_bad_fragment =
     driver_ok\<lparr>GetShaderiv_ret := (\<lambda>tr h pname. if h = 2 then 0 else 1),
               GetShaderInfoLog_ret := (\<lambda>tr h n. ''0:7: undeclared identifier'')\<rparr>"

text \<open>The program \<open>ShaderProgram_ctor\<close> builds on \<open>driver_ok\<close>, before any call on it.\<close>

definition program_ok :: ShaderProgram where
  "program_ok =
     \<lparr>ShaderProgram_id' = 3,
      vertex' = \<lparr>Shader_id' = 1\<rparr>,
      fragment' = \<lparr>Shader_id' = 2\<rparr>,
      ShaderProgram_vbo' = \<lparr>vao' = 7, VertexBuffer_vbo' = 8, nextVertex' = 0\<rparr>,
      uniform_cache' = Map.empty\<rparr>"

text \<open>
  The construction of that program from an empty list of calls, and two runs of calls
  on it, one after the other.
\<close>

definition built_ok :: "(error + ShaderProgram) \<times> nat gl_call list" where
  "built_ok = ShaderProgram_ctor driver_ok 16 ''v'' ''f'' [] []"

definition run_first :: "call_result list \<times> ShaderProgram \<times> nat gl_call list" where
  "run_first =
     do_calls driver_ok 16 [Call_Use, Call_setUniform1i ''u'' 1, Call_addVertexData [10, 20, 30]]
       program_ok (snd built_ok)"

definition run_later :: "call_result list \<times> ShaderProgram \<times> nat gl_call list" where
  "run_later =
     do_calls driver_ok 16 [Call_setUniform1f ''u'' 2, Call_Unuse]
       (fst (snd run_first)) (snd (snd run_first))"

text \<open>
  A buffer as its constructor leaves it, the same buffer after one range of 65530
  vertices was added, and a buffer whose cursor stands at 65530.
\<close>

definition buffer_ok :: OrphaningVertexBuffer where
  "buffer_ok = \<lparr>vao' = 7, VertexBuffer_vbo' = 8, nextVertex' = 0\<rparr>"

definition buffer_filled :: "OrphaningVertexBuffer \<times> nat gl_call list" where
  "buffer_filled = AddVertexData_seq driver_ok 16 [replicate 65530 0] buffer_ok []"

definition buffer_nearly_full :: OrphaningVertexBuffer where
  "buffer_nearly_full = \<lparr>vao' = 7, VertexBuffer_vbo' = 8, nextVertex' = 65530\<rparr>"

section \<open>The cursor of the orphaning buffer\<close>

lemma kVertexCount_eq: "kVertexCount = 65536"
  by (simp add: kVertexCount_def)

lemma unat_dist:
  assumes "n < 2 ^ 64"
  shows "unat (word_of_nat n :: size_t) = n"
  using assms by (simp add: unat_of_nat)

lemma unat_cursor_plus:
  fixes c :: size_t
  assumes "unat c + n < 2 ^ 64"
  shows "unat (c + word_of_nat n) = unat c + n"
proof -
  have n: "n < 2 ^ 64" using assms by simp
  have "unat (c + word_of_nat n) = (unat c + unat (word_of_nat n :: size_t)) mod 2 ^ 64"
    by (simp add: unat_word_ariths)
  also have "\<dots> = (unat c + n) mod 2 ^ 64" using n by (simp add: unat_dist)
  also have "\<dots> = unat c + n" using assms by simp
  finally show ?thesis .
qed

lemma overflow_test:
  fixes c :: size_t
  assumes "unat c + n < 2 ^ 64"
  shows "(kVertexCount \<le> c + word_of_nat n) = (65536 \<le> unat c + n)"
  using assms by (simp add: kVertexCount_eq word_le_nat_alt unat_cursor_plus)

lemma AddVertexData_unfold:
  "AddVertexData drv szV b vs tr =
     (if kVertexCount \<le> nextVertex' b + word_of_nat (length vs) then
        (0, b\<lparr>nextVertex' := word_of_nat (length vs)\<rparr>,
         tr @ [BindBuffer GL_ARRAY_BUFFER (VertexBuffer_vbo' b),
               BufferData GL_ARRAY_BUFFER (kVertexCount * szV) None kBufferType,
               MapBufferRange GL_ARRAY_BUFFER 0 (word_of_nat (length vs) * szV)
                 (or GL_MAP_WRITE_BIT GL_MAP_UNSYNCHRONIZED_BIT),
               CopyToMapped
                 (MapBufferRange_ret drv
                    (tr @ [BindBuffer GL_ARRAY_BUFFER (VertexBuffer_vbo' b),
                           BufferData GL_ARRAY_BUFFER (kVertexCount * szV) None kBufferType])
                    GL_ARRAY_BUFFER 0 (word_of_nat (length vs) * szV)
                    (or GL_MAP_WRITE_BIT GL_MAP_UNSYNCHRONIZED_BIT))
                 vs,
               UnmapBuffer GL_ARRAY_BUFFER])
      else
        (nextVertex' b, b\<lparr>nextVertex' := nextVertex' b + word_of_nat (length vs)\<rparr>,
         tr @ [BindBuffer GL_ARRAY_BUFFER (VertexBuffer_vbo' b),
               MapBufferRange GL_ARRAY_BUFFER (nextVertex' b * szV) (word_of_nat (length vs) * szV)
                 (or GL_MAP_WRITE_BIT GL_MAP_UNSYNCHRONIZED_BIT),
               CopyToMapped
                 (MapBufferRange_ret drv
                    (tr @ [BindBuffer GL_ARRAY_BUFFER (VertexBuffer_vbo' b)])
                    GL_ARRAY_BUFFER (nextVertex' b * szV) (word_of_nat (length vs) * szV)
                    (or GL_MAP_WRITE_BIT GL_MAP_UNSYNCHRONIZED_BIT))
                 vs,
               UnmapBuffer GL_ARRAY_BUFFER]))"
  by (simp add: AddVertexData_def bind_def Let_def VertexBuffer.truncate_def)

lemma AddVertexData_cursor_bound:
  assumes cur: "unat (nextVertex' b) < 2 ^ 63"
      and rng: "valid_range vs"
      and call: "AddVertexData drv szV b vs tr = (start, b', tr')"
  shows "unat (nextVertex' b') < 2 ^ 63"
proof -
  have len: "length vs < 2 ^ 63" using rng by (simp add: valid_range_def)
  have sum: "unat (nextVertex' b) + length vs < 2 ^ 64" using cur len by simp
  show ?thesis
  proof (cases "65536 \<le> unat (nextVertex' b) + length vs")
    case True
    then have "kVertexCount \<le> nextVertex' b + word_of_nat (length vs)"
      using overflow_test [OF sum] by simp
    with call have "nextVertex' b' = word_of_nat (length vs)"
      by (auto simp: AddVertexData_unfold)
    then show ?thesis using len by (simp add: unat_dist)
  next
    case False
    then have "\<not> kVertexCount \<le> nextVertex' b + word_of_nat (length vs)"
      using overflow_test [OF sum] by simp
    with call have "nextVertex' b' = nextVertex' b + word_of_nat (length vs)"
      by (auto simp: AddVertexData_unfold)
    then show ?thesis using False sum by (simp add: unat_cursor_plus)
  qed
qed

lemma AddVertexData_seq_cursor_bound:
  assumes "unat (nextVertex' b) < 2 ^ 63"
      and "\<forall>vs \<in> set history. valid_range vs"
      and "AddVertexData_seq drv szV history b tr = (b', tr')"
  shows "unat (nextVertex' b') < 2 ^ 63"
  using assms
proof (induction history arbitrary: b tr)
  case Nil
  then show ?case by simp
next
  case (Cons vs rest)
  from Cons.prems(3) obtain start b1 tr1 where
    step: "AddVertexData drv szV b vs tr = (start, b1, tr1)"
    and tail: "AddVertexData_seq drv szV rest b1 tr1 = (b', tr')"
    by (auto split: prod.splits)
  have "unat (nextVertex' b1) < 2 ^ 63"
    using AddVertexData_cursor_bound [OF Cons.prems(1) _ step] Cons.prems(2) by simp
  from Cons.IH [OF this _ tail] Cons.prems(2) show ?case by simp
qed

lemma reached_sum:
  assumes fresh: "nextVertex' b0 = 0"
      and hist: "\<forall>vs \<in> set history. valid_range vs"
      and reached: "AddVertexData_seq drv szV history b0 tr0 = (b, tr)"
      and rng: "valid_range vs"
  shows "unat (nextVertex' b) + length vs < 2 ^ 64"
proof -
  have "unat (nextVertex' b0) < 2 ^ 63" using fresh by simp
  from AddVertexData_seq_cursor_bound [OF this hist reached]
  have "unat (nextVertex' b) < 2 ^ 63" .
  moreover have "length vs < 2 ^ 63" using rng by (simp add: valid_range_def)
  ultimately show ?thesis by simp
qed


section \<open>The uniform cache\<close>

lemma getUniformId_hit:
  "uniform_cache' p nm = Some loc \<Longrightarrow> getUniformId drv p nm tr = (Inr loc, p, tr)"
  by (simp add: getUniformId_def)

lemma getUniformId_miss:
  assumes "uniform_cache' p nm = None"
  shows "getUniformId drv p nm tr =
     (let loc = GetUniformLocation_ret drv tr (ShaderProgram_id' p) nm
      in (if loc \<noteq> - 1 then Inr loc
          else Inl (runtime_error (''uniform '' @ nm @ '' nonexistent or inactive'')),
          p\<lparr>uniform_cache' := (uniform_cache' p)(nm \<mapsto> loc)\<rparr>,
          tr @ [GetUniformLocation (ShaderProgram_id' p) nm]))"
  using assms by (simp add: getUniformId_def emplace_def Let_def)

lemma getUniformId_Inl:
  assumes "getUniformId drv p nm tr = (Inl e, p1, tr1)"
  shows "uniform_cache' p nm = None
       \<and> GetUniformLocation_ret drv tr (ShaderProgram_id' p) nm = - 1
       \<and> e = runtime_error (''uniform '' @ nm @ '' nonexistent or inactive'')
       \<and> p1 = p\<lparr>uniform_cache' := (uniform_cache' p)(nm \<mapsto> - 1)\<rparr>
       \<and> tr1 = tr @ [GetUniformLocation (ShaderProgram_id' p) nm]"
proof (cases "uniform_cache' p nm")
  case None
  with assms show ?thesis
    by (auto simp: getUniformId_miss Let_def split: if_splits)
next
  case (Some loc)
  with assms show ?thesis by (simp add: getUniformId_hit)
qed

text \<open>What one call does to the cache and to the program's handle.\<close>

lemma getUniformId_keeps:
  assumes "getUniformId drv p nm tr = (r, p1, tr1)"
  shows "ShaderProgram_id' p1 = ShaderProgram_id' p
       \<and> ShaderProgram_vbo' p1 = ShaderProgram_vbo' p
       \<and> vertex' p1 = vertex' p \<and> fragment' p1 = fragment' p
       \<and> (\<forall>n loc. uniform_cache' p n = Some loc \<longrightarrow> uniform_cache' p1 n = Some loc)"
proof (cases "uniform_cache' p nm")
  case None
  with assms show ?thesis
    by (auto simp: getUniformId_miss Let_def)
next
  case (Some loc)
  with assms show ?thesis by (simp add: getUniformId_hit)
qed

lemma getUniformId_missing:
  assumes "uniform_cache' p nm = None"
      and "GetUniformLocation_ret drv tr (ShaderProgram_id' p) nm = - 1"
  shows "\<exists>p' tr'. getUniformId drv p nm tr =
           (Inl (runtime_error (''uniform '' @ nm @ '' nonexistent or inactive'')), p', tr')
         \<and> filter is_attempt (calls_since tr tr') = [GetUniformLocation (ShaderProgram_id' p) nm]"
  using assms by (simp add: getUniformId_miss Let_def calls_since_def)

section \<open>What a call on a live program does\<close>

lemma AddVertexData_effect:
  assumes "AddVertexData drv szV b vs tr = (start, b', tr')"
  shows "\<exists>ev. tr' = tr @ ev \<and> filter is_delete ev = []
            \<and> count_list ev (GetUniformLocation h n) = 0"
    and "vao' b' = vao' b" and "VertexBuffer_vbo' b' = VertexBuffer_vbo' b"
  using assms
  by (auto simp: AddVertexData_def bind_def Let_def split: if_splits)

lemma getUniformId_effect:
  assumes "getUniformId drv p nm tr = (r, p', tr')"
  shows "\<exists>ev. tr' = tr @ ev \<and> filter is_delete ev = []
            \<and> count_list ev (GetUniformLocation h n) =
                (if uniform_cache' p n = None \<and> uniform_cache' p' n \<noteq> None
                    \<and> h = ShaderProgram_id' p then 1 else 0)"
proof (cases "uniform_cache' p nm")
  case None
  with assms show ?thesis
    by (cases "n = nm") (auto simp: getUniformId_miss Let_def)
next
  case (Some loc)
  with assms show ?thesis by (auto simp: getUniformId_hit)
qed

lemma setUniformMat4f_via:
  assumes "setUniformMat4f drv p nm matrix tr = (r, p', tr')"
  shows "\<exists>r0 tr1 ev. getUniformId drv p nm tr = (r0, p', tr1) \<and> tr' = tr1 @ ev
            \<and> filter is_delete ev = [] \<and> (\<forall>h n. count_list ev (GetUniformLocation h n) = 0)"
  using assms by (auto simp: setUniformMat4f_def split: prod.splits sum.splits)

lemma setUniform1i_via:
  assumes "setUniform1i drv p nm val tr = (r, p', tr')"
  shows "\<exists>r0 tr1 ev. getUniformId drv p nm tr = (r0, p', tr1) \<and> tr' = tr1 @ ev
            \<and> filter is_delete ev = [] \<and> (\<forall>h n. count_list ev (GetUniformLocation h n) = 0)"
  using assms by (auto simp: setUniform1i_def split: prod.splits sum.splits)

lemma setUniform1f_via:
  assumes "setUniform1f drv p nm val tr = (r, p', tr')"
  shows "\<exists>r0 tr1 ev. getUniformId drv p nm tr = (r0, p', tr1) \<and> tr' = tr1 @ ev
            \<and> filter is_delete ev = [] \<and> (\<forall>h n. count_list ev (GetUniformLocation h n) = 0)"
  using assms by (auto simp: setUniform1f_def split: prod.splits sum.splits)

lemma setUniform4fv_via:
  assumes "setUniform4fv drv p nm f0 f1 f2 f3 tr = (r, p', tr')"
  shows "\<exists>r0 tr1 ev. getUniformId drv p nm tr = (r0, p', tr1) \<and> tr' = tr1 @ ev
            \<and> filter is_delete ev = [] \<and> (\<forall>h n. count_list ev (GetUniformLocation h n) = 0)"
  using assms by (auto simp: setUniform4fv_def split: prod.splits sum.splits)

text \<open>The effect of a lookup followed by calls that are neither queries nor deletions.\<close>

lemma via_effect:
  assumes via: "getUniformId drv p nm tr = (r0, p', tr1)"
      and tr': "tr' = tr1 @ ev0"
      and nodel: "filter is_delete ev0 = []"
      and noq: "\<forall>h n. count_list ev0 (GetUniformLocation h n) = 0"
  shows "\<exists>ev. tr' = tr @ ev \<and> filter is_delete ev = []
            \<and> count_list ev (GetUniformLocation h n) =
                (if uniform_cache' p n = None \<and> uniform_cache' p' n \<noteq> None
                    \<and> h = ShaderProgram_id' p then 1 else 0)"
proof -
  from getUniformId_effect [OF via, of h n] obtain ev1 where
    ev1: "tr1 = tr @ ev1" "filter is_delete ev1 = []"
      "count_list ev1 (GetUniformLocation h n) =
         (if uniform_cache' p n = None \<and> uniform_cache' p' n \<noteq> None
             \<and> h = ShaderProgram_id' p then 1 else 0)"
    by blast
  have "tr' = tr @ (ev1 @ ev0)" using tr' ev1(1) by simp
  moreover have "filter is_delete (ev1 @ ev0) = []" using ev1(2) nodel by simp
  moreover have "count_list (ev1 @ ev0) (GetUniformLocation h n) =
         (if uniform_cache' p n = None \<and> uniform_cache' p' n \<noteq> None
             \<and> h = ShaderProgram_id' p then 1 else 0)"
    using ev1(3) noq by simp
  ultimately show ?thesis by blast
qed

lemma do_call_trace:
  assumes "do_call drv szV c p tr = (r, p', tr')"
  shows "\<exists>ev. tr' = tr @ ev \<and> filter is_delete ev = []
            \<and> count_list ev (GetUniformLocation h n) =
                (if uniform_cache' p n = None \<and> uniform_cache' p' n \<noteq> None
                    \<and> h = ShaderProgram_id' p then 1 else 0)"
proof (cases c)
  case Call_Use
  with assms show ?thesis by (auto simp: Use_def)
next
  case Call_Unuse
  with assms show ?thesis by (auto simp: Unuse_def)
next
  case (Call_addVertexData vs)
  with assms obtain start b where
    add: "AddVertexData drv szV (ShaderProgram_vbo' p) vs tr = (start, b, tr')"
    and p': "p' = p\<lparr>ShaderProgram_vbo' := b\<rparr>"
    by (auto simp: addVertexData_def split: prod.splits)
  from AddVertexData_effect(1) [OF add, of h n] p' show ?thesis by auto
next
  case (Call_setUniformMat4f nm matrix)
  with assms obtain r1 where "setUniformMat4f drv p nm matrix tr = (r1, p', tr')"
    by (auto split: prod.splits)
  from setUniformMat4f_via [OF this] show ?thesis by (blast intro: via_effect)
next
  case (Call_setUniform1i nm val)
  with assms obtain r1 where "setUniform1i drv p nm val tr = (r1, p', tr')"
    by (auto split: prod.splits)
  from setUniform1i_via [OF this] show ?thesis by (blast intro: via_effect)
next
  case (Call_setUniform1f nm val)
  with assms obtain r1 where "setUniform1f drv p nm val tr = (r1, p', tr')"
    by (auto split: prod.splits)
  from setUniform1f_via [OF this] show ?thesis by (blast intro: via_effect)
next
  case (Call_setUniform4fv nm f0 f1 f2 f3)
  with assms obtain r1 where "setUniform4fv drv p nm f0 f1 f2 f3 tr = (r1, p', tr')"
    by (auto split: prod.splits)
  from setUniform4fv_via [OF this] show ?thesis by (blast intro: via_effect)
qed

lemma do_call_keeps:
  assumes "do_call drv szV c p tr = (r, p', tr')"
  shows "ShaderProgram_id' p' = ShaderProgram_id' p
       \<and> vertex' p' = vertex' p \<and> fragment' p' = fragment' p
       \<and> vao' (ShaderProgram_vbo' p') = vao' (ShaderProgram_vbo' p)
       \<and> VertexBuffer_vbo' (ShaderProgram_vbo' p') = VertexBuffer_vbo' (ShaderProgram_vbo' p)
       \<and> (\<forall>n loc. uniform_cache' p n = Some loc \<longrightarrow> uniform_cache' p' n = Some loc)"
proof (cases c)
  case Call_Use
  with assms show ?thesis by auto
next
  case Call_Unuse
  with assms show ?thesis by auto
next
  case (Call_addVertexData vs)
  with assms obtain start b where
    add: "AddVertexData drv szV (ShaderProgram_vbo' p) vs tr = (start, b, tr')"
    and p': "p' = p\<lparr>ShaderProgram_vbo' := b\<rparr>"
    by (auto simp: addVertexData_def split: prod.splits)
  from AddVertexData_effect(2,3) [OF add] p' show ?thesis by simp
next
  case (Call_setUniformMat4f nm matrix)
  with assms obtain r1 where "setUniformMat4f drv p nm matrix tr = (r1, p', tr')"
    by (auto split: prod.splits)
  from setUniformMat4f_via [OF this] obtain r0 tr1 where "getUniformId drv p nm tr = (r0, p', tr1)"
    by blast
  from getUniformId_keeps [OF this] show ?thesis by simp
next
  case (Call_setUniform1i nm val)
  with assms obtain r1 where "setUniform1i drv p nm val tr = (r1, p', tr')"
    by (auto split: prod.splits)
  from setUniform1i_via [OF this] obtain r0 tr1 where "getUniformId drv p nm tr = (r0, p', tr1)"
    by blast
  from getUniformId_keeps [OF this] show ?thesis by simp
next
  case (Call_setUniform1f nm val)
  with assms obtain r1 where "setUniform1f drv p nm val tr = (r1, p', tr')"
    by (auto split: prod.splits)
  from setUniform1f_via [OF this] obtain r0 tr1 where "getUniformId drv p nm tr = (r0, p', tr1)"
    by blast
  from getUniformId_keeps [OF this] show ?thesis by simp
next
  case (Call_setUniform4fv nm f0 f1 f2 f3)
  with assms obtain r1 where "setUniform4fv drv p nm f0 f1 f2 f3 tr = (r1, p', tr')"
    by (auto split: prod.splits)
  from setUniform4fv_via [OF this] obtain r0 tr1 where "getUniformId drv p nm tr = (r0, p', tr1)"
    by blast
  from getUniformId_keeps [OF this] show ?thesis by simp
qed

lemma do_calls_keeps:
  assumes "do_calls drv szV cs p tr = (rs, p', tr')"
  shows "ShaderProgram_id' p' = ShaderProgram_id' p
       \<and> vertex' p' = vertex' p \<and> fragment' p' = fragment' p
       \<and> vao' (ShaderProgram_vbo' p') = vao' (ShaderProgram_vbo' p)
       \<and> VertexBuffer_vbo' (ShaderProgram_vbo' p') = VertexBuffer_vbo' (ShaderProgram_vbo' p)
       \<and> (\<forall>n loc. uniform_cache' p n = Some loc \<longrightarrow> uniform_cache' p' n = Some loc)"
  using assms
proof (induction cs arbitrary: p tr rs)
  case Nil
  then show ?case by simp
next
  case (Cons c cs)
  from Cons.prems obtain r p1 tr1 rs1 where
    step: "do_call drv szV c p tr = (r, p1, tr1)"
    and rest: "do_calls drv szV cs p1 tr1 = (rs1, p', tr')"
    by (auto split: prod.splits)
  from do_call_keeps [OF step] Cons.IH [OF rest] show ?case by simp
qed

lemma do_calls_trace:
  assumes "do_calls drv szV cs p tr = (rs, p', tr')"
  shows "\<exists>ev. tr' = tr @ ev \<and> filter is_delete ev = []
            \<and> count_list ev (GetUniformLocation h n) =
                (if uniform_cache' p n = None \<and> uniform_cache' p' n \<noteq> None
                    \<and> h = ShaderProgram_id' p then 1 else 0)"
  using assms
proof (induction cs arbitrary: p tr rs)
  case Nil
  then show ?case by auto
next
  case (Cons c cs)
  from Cons.prems obtain r p1 tr1 rs1 where
    step: "do_call drv szV c p tr = (r, p1, tr1)"
    and rest: "do_calls drv szV cs p1 tr1 = (rs1, p', tr')"
    by (auto split: prod.splits)
  from do_call_trace [OF step, of h n] obtain ev1 where
    ev1: "tr1 = tr @ ev1" "filter is_delete ev1 = []"
      "count_list ev1 (GetUniformLocation h n) =
         (if uniform_cache' p n = None \<and> uniform_cache' p1 n \<noteq> None
             \<and> h = ShaderProgram_id' p then 1 else 0)"
    by blast
  from Cons.IH [OF rest] obtain ev2 where
    ev2: "tr' = tr1 @ ev2" "filter is_delete ev2 = []"
      "count_list ev2 (GetUniformLocation h n) =
         (if uniform_cache' p1 n = None \<and> uniform_cache' p' n \<noteq> None
             \<and> h = ShaderProgram_id' p1 then 1 else 0)"
    by blast
  have id1: "ShaderProgram_id' p1 = ShaderProgram_id' p"
    and mono1: "\<And>loc. uniform_cache' p n = Some loc \<Longrightarrow> uniform_cache' p1 n = Some loc"
    using do_call_keeps [OF step] by auto
  have mono2: "\<And>loc. uniform_cache' p1 n = Some loc \<Longrightarrow> uniform_cache' p' n = Some loc"
    using do_calls_keeps [OF rest] by auto
  have "tr' = tr @ (ev1 @ ev2)" using ev1(1) ev2(1) by simp
  moreover have "filter is_delete (ev1 @ ev2) = []" using ev1(2) ev2(2) by simp
  moreover have "count_list (ev1 @ ev2) (GetUniformLocation h n) =
         (if uniform_cache' p n = None \<and> uniform_cache' p' n \<noteq> None
             \<and> h = ShaderProgram_id' p then 1 else 0)"
    using ev1(3) ev2(3) id1 mono1 mono2
    by (cases "uniform_cache' p n"; cases "uniform_cache' p1 n") auto
  ultimately show ?case by blast
qed

section \<open>Construction and destruction\<close>

lemma Shader_ctor_unfold:
  "Shader_ctor drv kType src tr =
     (let h = CreateShader_ret drv tr kType;
          tr3 = tr @ [CreateShader kType,
                      ShaderSource h 1 src (word_of_nat (length src)),
                      CompileShader h]
      in if h = 0 then
           (Inl (runtime_error ''failed to create shader''),
            tr @ [CreateShader kType, DeleteShader h])
         else if GetShaderiv_ret drv tr3 h GL_COMPILE_STATUS \<noteq> GL_TRUE then
           (Inl (runtime_error
                   (GetShaderInfoLog_ret drv (tr3 @ [GetShaderiv h GL_COMPILE_STATUS]) h 1024)),
            tr3 @ [GetShaderiv h GL_COMPILE_STATUS, GetShaderInfoLog h 1024, DeleteShader h])
         else (Inr \<lparr>Shader_id' = h\<rparr>, tr3 @ [GetShaderiv h GL_COMPILE_STATUS]))"
  by (simp add: Shader_ctor_def Let_def MoveOnlyHolder_dtor_def DeleteShader_fn_def)

lemma Shader_ctor_Inr:
  assumes "Shader_ctor drv kType src tr = (Inr sh, tr')"
  shows "Shader_id' sh = CreateShader_ret drv tr kType"
    and "Shader_id' sh \<noteq> 0"
    and "tr' = tr @ [CreateShader kType,
                     ShaderSource (Shader_id' sh) 1 src (word_of_nat (length src)),
                     CompileShader (Shader_id' sh),
                     GetShaderiv (Shader_id' sh) GL_COMPILE_STATUS]"
  using assms by (auto simp: Shader_ctor_unfold Let_def split: if_splits)

lemma attrib_loop_trace:
  "\<exists>ev. attrib_loop program szV i attribs tr = tr @ ev
        \<and> filter is_delete ev = [] \<and> filter is_attempt ev = []"
proof (induction attribs arbitrary: i tr)
  case Nil
  then show ?case by simp
next
  case (Cons a rest)
  from Cons.IH [of "i + 1" "tr @ [EnableVertexAttribArray (ucast i),
              VertexAttribPointer (ucast i) (attr_size a) (attr_type a) (attr_normalized a)
                (ucast szV) (attr_offset a),
              BindAttribLocation program (ucast i) (attr_name a)]"]
  obtain ev where ev: "attrib_loop program szV (i + 1) rest
       (tr @ [EnableVertexAttribArray (ucast i),
              VertexAttribPointer (ucast i) (attr_size a) (attr_type a) (attr_normalized a)
                (ucast szV) (attr_offset a),
              BindAttribLocation program (ucast i) (attr_name a)]) =
       (tr @ [EnableVertexAttribArray (ucast i),
              VertexAttribPointer (ucast i) (attr_size a) (attr_type a) (attr_normalized a)
                (ucast szV) (attr_offset a),
              BindAttribLocation program (ucast i) (attr_name a)]) @ ev"
     "filter is_delete ev = []" "filter is_attempt ev = []"
    by blast
  show ?case
    by (rule exI [of _ "[EnableVertexAttribArray (ucast i),
              VertexAttribPointer (ucast i) (attr_size a) (attr_type a) (attr_normalized a)
                (ucast szV) (attr_offset a),
              BindAttribLocation program (ucast i) (attr_name a)] @ ev"])
       (simp add: ev)
qed

lemma VertexBuffer_ctor_trace:
  assumes "VertexBuffer_ctor drv szV program attribs vertexCount bufferType initialData tr = (vb, tr')"
  shows "\<exists>ev. tr' = tr @ ev \<and> filter is_delete ev = [] \<and> filter is_attempt ev = []"
proof -
  let ?pre = "[GenVertexArrays 1, GenBuffers 1, BindVertexArray (vao' vb),
               BindBuffer GL_ARRAY_BUFFER (VertexBuffer_vbo' vb),
               BufferData GL_ARRAY_BUFFER (vertexCount * szV) initialData bufferType]"
  from assms have tr': "tr' = attrib_loop program szV 0 attribs (tr @ ?pre)"
    by (auto simp: VertexBuffer_ctor_def bind_def Let_def)
  from attrib_loop_trace [of program szV 0 attribs "tr @ ?pre"] obtain ev where
    ev: "attrib_loop program szV 0 attribs (tr @ ?pre) = (tr @ ?pre) @ ev"
      "filter is_delete ev = []" "filter is_attempt ev = []"
    by blast
  show ?thesis
    by (rule exI [of _ "?pre @ ev"]) (simp add: tr' ev)
qed

lemma OrphaningVertexBuffer_ctor_trace:
  assumes "OrphaningVertexBuffer_ctor drv szV program attribs tr = (b, tr')"
  shows "\<exists>ev. tr' = tr @ ev \<and> filter is_delete ev = [] \<and> filter is_attempt ev = []"
    and "nextVertex' b = 0"
proof -
  from assms obtain vb where
    vb: "VertexBuffer_ctor drv szV program attribs kVertexCount kBufferType None tr = (vb, tr')"
    and b: "b = \<lparr>vao' = vao' vb, VertexBuffer_vbo' = VertexBuffer_vbo' vb, nextVertex' = 0\<rparr>"
    by (auto simp: OrphaningVertexBuffer_ctor_def split: prod.splits)
  from VertexBuffer_ctor_trace [OF vb]
  show "\<exists>ev. tr' = tr @ ev \<and> filter is_delete ev = [] \<and> filter is_attempt ev = []" .
  from b show "nextVertex' b = 0" by simp
qed

lemma dtor_unfold:
  "Shader_dtor sh tr = tr @ [DeleteShader (Shader_id' sh)]"
  "VertexBuffer_dtor vb tr =
     tr @ [DeleteBuffers 1 (VertexBuffer_vbo' vb), DeleteVertexArrays 1 (vao' vb)]"
  "OrphaningVertexBuffer_dtor b tr =
     tr @ [DeleteBuffers 1 (VertexBuffer_vbo' b), DeleteVertexArrays 1 (vao' b)]"
  "ShaderProgram_dtor p tr =
     tr @ [DeleteBuffers 1 (VertexBuffer_vbo' (ShaderProgram_vbo' p)),
           DeleteVertexArrays 1 (vao' (ShaderProgram_vbo' p)),
           DeleteShader (Shader_id' (fragment' p)),
           DeleteShader (Shader_id' (vertex' p)),
           DeleteProgram (ShaderProgram_id' p)]"
  by (simp_all add: Shader_dtor_def VertexBuffer_dtor_def OrphaningVertexBuffer_dtor_def
      ShaderProgram_dtor_def MoveOnlyHolder_dtor_def DeleteShader_fn_def DeleteBuffer_def
      DeleteVertexArray_def DeleteProgram_fn_def VertexBuffer.truncate_def)

lemma ShaderProgram_ctor_body_unfold:
  assumes "Shader_id' (vertex' p) \<noteq> 0" and "Shader_id' (fragment' p) \<noteq> 0"
  shows "ShaderProgram_ctor_body drv p tr4 =
     (let pid = ShaderProgram_id' p;
          trl = tr4 @ [AttachShader pid (Shader_id' (vertex' p)),
                       AttachShader pid (Shader_id' (fragment' p)),
                       LinkProgram pid]
      in if pid = 0 then (Some (runtime_error ''error creating GL program''), tr4)
         else if GetProgramiv_ret drv trl pid GL_LINK_STATUS \<noteq> GL_TRUE then
           (Some (runtime_error
                    (GetProgramInfoLog_ret drv (trl @ [GetProgramiv pid GL_LINK_STATUS]) pid 1024)),
            trl @ [GetProgramiv pid GL_LINK_STATUS, GetProgramInfoLog pid 1024])
         else (None, trl @ [GetProgramiv pid GL_LINK_STATUS]))"
  using assms by (simp add: ShaderProgram_ctor_body_def Shader_id_def Let_def)

text \<open>The constructor, once both shaders are built.\<close>

lemma ShaderProgram_ctor_shaders_built:
  assumes v: "Shader_ctor drv GL_VERTEX_SHADER vertexSrc (tr @ [CreateProgram]) = (Inr vertex, tr2)"
      and f: "Shader_ctor drv GL_FRAGMENT_SHADER fragmentSrc tr2 = (Inr fragment, tr3)"
      and b: "OrphaningVertexBuffer_ctor drv szV (CreateProgram_ret drv tr) attribs tr3 = (vbo, tr4)"
  shows "ShaderProgram_ctor drv szV vertexSrc fragmentSrc attribs tr =
     (let p = \<lparr>ShaderProgram_id' = CreateProgram_ret drv tr, vertex' = vertex,
                fragment' = fragment, ShaderProgram_vbo' = vbo, uniform_cache' = Map.empty\<rparr>
      in case ShaderProgram_ctor_body drv p tr4 of
           (Some e, tr5) \<Rightarrow> (Inl e, ShaderProgram_dtor p tr5)
         | (None, tr5) \<Rightarrow> (Inr p, tr5))"
  using v f b by (simp add: ShaderProgram_ctor_def Let_def)

lemma ShaderProgram_ctor_Inr:
  assumes "ShaderProgram_ctor drv szV vertexSrc fragmentSrc attribs tr = (Inr p, tr')"
  shows "uniform_cache' p = Map.empty"
    and "nextVertex' (ShaderProgram_vbo' p) = 0"
    and "ShaderProgram_id' p = CreateProgram_ret drv tr"
    and "ShaderProgram_id' p \<noteq> 0"
    and "\<exists>ev. tr' = tr @ ev \<and> filter is_delete ev = []"
proof -
  let ?tr1 = "tr @ [CreateProgram]"
  let ?pid = "CreateProgram_ret drv tr"
  obtain rv tr2 where v: "Shader_ctor drv GL_VERTEX_SHADER vertexSrc ?tr1 = (rv, tr2)"
    by (cases "Shader_ctor drv GL_VERTEX_SHADER vertexSrc ?tr1") auto
  obtain rf tr3 where f: "Shader_ctor drv GL_FRAGMENT_SHADER fragmentSrc tr2 = (rf, tr3)"
    by (cases "Shader_ctor drv GL_FRAGMENT_SHADER fragmentSrc tr2") auto
  obtain vbo tr4 where b: "OrphaningVertexBuffer_ctor drv szV ?pid attribs tr3 = (vbo, tr4)"
    by (cases "OrphaningVertexBuffer_ctor drv szV ?pid attribs tr3") auto
  from assms v obtain vertex where rv: "rv = Inr vertex"
    by (cases rv) (auto simp: ShaderProgram_ctor_def Let_def)
  from assms v f rv obtain fragment where rf: "rf = Inr fragment"
    by (cases rf) (auto simp: ShaderProgram_ctor_def Let_def)
  let ?p = "\<lparr>ShaderProgram_id' = ?pid, vertex' = vertex, fragment' = fragment,
             ShaderProgram_vbo' = vbo, uniform_cache' = Map.empty\<rparr>"
  have vid: "Shader_id' (vertex' ?p) \<noteq> 0"
    using Shader_ctor_Inr(2) [OF v [unfolded rv]] by simp
  have fid: "Shader_id' (fragment' ?p) \<noteq> 0"
    using Shader_ctor_Inr(2) [OF f [unfolded rf]] by simp
  from assms ShaderProgram_ctor_shaders_built [OF v [unfolded rv] f [unfolded rf] b]
  have body: "(case ShaderProgram_ctor_body drv ?p tr4 of
           (Some e, tr5) \<Rightarrow> (Inl e, ShaderProgram_dtor ?p tr5)
         | (None, tr5) \<Rightarrow> (Inr ?p, tr5)) = (Inr p, tr')"
    by (simp add: Let_def)
  then have p: "p = ?p" and pid: "?pid \<noteq> 0"
    and tr': "tr' = tr4 @ [AttachShader ?pid (Shader_id' vertex),
                           AttachShader ?pid (Shader_id' fragment),
                           LinkProgram ?pid, GetProgramiv ?pid GL_LINK_STATUS]"
    by (auto simp: ShaderProgram_ctor_body_unfold [OF vid fid] Let_def split: if_splits)
  from p show "uniform_cache' p = Map.empty" by simp
  from p OrphaningVertexBuffer_ctor_trace(2) [OF b]
  show "nextVertex' (ShaderProgram_vbo' p) = 0" by simp
  from p show "ShaderProgram_id' p = ?pid" by simp
  from p pid show "ShaderProgram_id' p \<noteq> 0" by simp
  from OrphaningVertexBuffer_ctor_trace(1) [OF b] obtain evb where
    evb: "tr4 = tr3 @ evb" "filter is_delete evb = []"
    by blast
  have tr2: "tr2 = ?tr1 @ [CreateShader GL_VERTEX_SHADER,
                     ShaderSource (Shader_id' vertex) 1 vertexSrc (word_of_nat (length vertexSrc)),
                     CompileShader (Shader_id' vertex),
                     GetShaderiv (Shader_id' vertex) GL_COMPILE_STATUS]"
    using Shader_ctor_Inr(3) [OF v [unfolded rv]] .
  have tr3: "tr3 = tr2 @ [CreateShader GL_FRAGMENT_SHADER,
                     ShaderSource (Shader_id' fragment) 1 fragmentSrc (word_of_nat (length fragmentSrc)),
                     CompileShader (Shader_id' fragment),
                     GetShaderiv (Shader_id' fragment) GL_COMPILE_STATUS]"
    using Shader_ctor_Inr(3) [OF f [unfolded rf]] .
  show "\<exists>ev. tr' = tr @ ev \<and> filter is_delete ev = []"
    by (rule exI [of _ "[CreateProgram] @
          [CreateShader GL_VERTEX_SHADER,
           ShaderSource (Shader_id' vertex) 1 vertexSrc (word_of_nat (length vertexSrc)),
           CompileShader (Shader_id' vertex),
           GetShaderiv (Shader_id' vertex) GL_COMPILE_STATUS] @
          [CreateShader GL_FRAGMENT_SHADER,
           ShaderSource (Shader_id' fragment) 1 fragmentSrc (word_of_nat (length fragmentSrc)),
           CompileShader (Shader_id' fragment),
           GetShaderiv (Shader_id' fragment) GL_COMPILE_STATUS] @ evb @
          [AttachShader ?pid (Shader_id' vertex), AttachShader ?pid (Shader_id' fragment),
           LinkProgram ?pid, GetProgramiv ?pid GL_LINK_STATUS]"])
       (simp add: tr' evb tr3 tr2)
qed

lemma Shader_ctor_zero_handle:
  assumes "CreateShader_ret drv tr kType = 0"
  shows "\<exists>tr'. Shader_ctor drv kType src tr =
                (Inl (runtime_error ''failed to create shader''), tr')
            \<and> filter is_attempt (calls_since tr tr') = [CreateShader kType]"
  using assms by (simp add: Shader_ctor_unfold Let_def calls_since_def)

lemma Shader_ctor_compile_error:
  assumes "CreateShader_ret drv tr kType = h" and "h \<noteq> 0"
      and "trc = tr @ [CreateShader kType, ShaderSource h 1 src (word_of_nat (length src)),
                       CompileShader h]"
      and "GetShaderiv_ret drv trc h GL_COMPILE_STATUS \<noteq> GL_TRUE"
  shows "\<exists>tr'. Shader_ctor drv kType src tr =
                (Inl (runtime_error
                        (GetShaderInfoLog_ret drv (trc @ [GetShaderiv h GL_COMPILE_STATUS]) h 1024)),
                 tr')
            \<and> filter is_attempt (calls_since tr tr') = [CreateShader kType, CompileShader h]"
  using assms by (simp add: Shader_ctor_unfold Let_def calls_since_def)

lemma ShaderProgram_ctor_shader_error:
  "Shader_ctor drv GL_VERTEX_SHADER vertexSrc (tr @ [CreateProgram]) = (Inl e, tra) \<Longrightarrow>
     \<exists>tr'. ShaderProgram_ctor drv szV vertexSrc fragmentSrc attribs tr = (Inl e, tr')"
  "Shader_ctor drv GL_VERTEX_SHADER vertexSrc (tr @ [CreateProgram]) = (Inr vertex, tra) \<Longrightarrow>
   Shader_ctor drv GL_FRAGMENT_SHADER fragmentSrc tra = (Inl e, trb) \<Longrightarrow>
     \<exists>tr'. ShaderProgram_ctor drv szV vertexSrc fragmentSrc attribs tr = (Inl e, tr')"
  by (simp_all add: ShaderProgram_ctor_def Let_def)

lemma ShaderProgram_ctor_body_errors:
  assumes v: "Shader_ctor drv GL_VERTEX_SHADER vertexSrc (tr @ [CreateProgram]) = (Inr vertex, tra)"
      and f: "Shader_ctor drv GL_FRAGMENT_SHADER fragmentSrc tra = (Inr fragment, trb)"
      and pid: "CreateProgram_ret drv tr = pid"
      and trl: "trl = snd (OrphaningVertexBuffer_ctor drv szV pid attribs trb) @
                  [AttachShader pid (Shader_id' vertex), AttachShader pid (Shader_id' fragment),
                   LinkProgram pid]"
  shows "pid = 0 \<Longrightarrow>
           \<exists>tr'. ShaderProgram_ctor drv szV vertexSrc fragmentSrc attribs tr =
                   (Inl (runtime_error ''error creating GL program''), tr')
               \<and> filter is_attempt (calls_since tr tr') =
                   [CreateProgram, CreateShader GL_VERTEX_SHADER, CompileShader (Shader_id' vertex),
                    CreateShader GL_FRAGMENT_SHADER, CompileShader (Shader_id' fragment)]"
    and "pid \<noteq> 0 \<Longrightarrow> GetProgramiv_ret drv trl pid GL_LINK_STATUS \<noteq> GL_TRUE \<Longrightarrow>
           \<exists>tr'. ShaderProgram_ctor drv szV vertexSrc fragmentSrc attribs tr =
                   (Inl (runtime_error
                           (GetProgramInfoLog_ret drv (trl @ [GetProgramiv pid GL_LINK_STATUS])
                              pid 1024)), tr')
               \<and> filter is_attempt (calls_since tr tr') =
                   [CreateProgram, CreateShader GL_VERTEX_SHADER, CompileShader (Shader_id' vertex),
                    CreateShader GL_FRAGMENT_SHADER, CompileShader (Shader_id' fragment),
                    LinkProgram pid]"
proof -
  obtain vbo tr4 where b: "OrphaningVertexBuffer_ctor drv szV pid attribs trb = (vbo, tr4)"
    by (cases "OrphaningVertexBuffer_ctor drv szV pid attribs trb") auto
  from OrphaningVertexBuffer_ctor_trace(1) [OF b] obtain evb where
    evb: "tr4 = trb @ evb" "filter is_attempt evb = []"
    by blast
  let ?p = "\<lparr>ShaderProgram_id' = pid, vertex' = vertex, fragment' = fragment,
             ShaderProgram_vbo' = vbo, uniform_cache' = Map.empty\<rparr>"
  have trl': "trl = tr4 @ [AttachShader pid (Shader_id' vertex),
                           AttachShader pid (Shader_id' fragment), LinkProgram pid]"
    using trl b by simp
  have vid: "Shader_id' (vertex' ?p) \<noteq> 0"
    using Shader_ctor_Inr(2) [OF v] by simp
  have fid: "Shader_id' (fragment' ?p) \<noteq> 0"
    using Shader_ctor_Inr(2) [OF f] by simp
  have ctor: "ShaderProgram_ctor drv szV vertexSrc fragmentSrc attribs tr =
         (case ShaderProgram_ctor_body drv ?p tr4 of
            (Some e, tr5) \<Rightarrow> (Inl e, ShaderProgram_dtor ?p tr5)
          | (None, tr5) \<Rightarrow> (Inr ?p, tr5))"
    using ShaderProgram_ctor_shaders_built [OF v f b [folded pid]] pid by (simp add: Let_def)
  have bv: "ShaderProgram_ctor_body drv ?p tr4 =
         (if pid = 0 then (Some (runtime_error ''error creating GL program''), tr4)
          else if GetProgramiv_ret drv trl pid GL_LINK_STATUS \<noteq> GL_TRUE then
            (Some (runtime_error
                     (GetProgramInfoLog_ret drv (trl @ [GetProgramiv pid GL_LINK_STATUS]) pid 1024)),
             trl @ [GetProgramiv pid GL_LINK_STATUS, GetProgramInfoLog pid 1024])
          else (None, trl @ [GetProgramiv pid GL_LINK_STATUS]))"
    using ShaderProgram_ctor_body_unfold [OF vid fid, of drv tr4] trl' by (simp add: Let_def)
  have pre: "tr4 = tr @ [CreateProgram, CreateShader GL_VERTEX_SHADER,
                 ShaderSource (Shader_id' vertex) 1 vertexSrc (word_of_nat (length vertexSrc)),
                 CompileShader (Shader_id' vertex),
                 GetShaderiv (Shader_id' vertex) GL_COMPILE_STATUS,
                 CreateShader GL_FRAGMENT_SHADER,
                 ShaderSource (Shader_id' fragment) 1 fragmentSrc (word_of_nat (length fragmentSrc)),
                 CompileShader (Shader_id' fragment),
                 GetShaderiv (Shader_id' fragment) GL_COMPILE_STATUS] @ evb"
    using evb(1) Shader_ctor_Inr(3) [OF v] Shader_ctor_Inr(3) [OF f] by simp
  show "\<exists>tr'. ShaderProgram_ctor drv szV vertexSrc fragmentSrc attribs tr =
                   (Inl (runtime_error ''error creating GL program''), tr')
               \<and> filter is_attempt (calls_since tr tr') =
                   [CreateProgram, CreateShader GL_VERTEX_SHADER, CompileShader (Shader_id' vertex),
                    CreateShader GL_FRAGMENT_SHADER, CompileShader (Shader_id' fragment)]"
    if "pid = 0"
    using that evb(2) unfolding ctor bv by (simp add: pre calls_since_def dtor_unfold)
  show "\<exists>tr'. ShaderProgram_ctor drv szV vertexSrc fragmentSrc attribs tr =
                   (Inl (runtime_error
                           (GetProgramInfoLog_ret drv (trl @ [GetProgramiv pid GL_LINK_STATUS])
                              pid 1024)), tr')
               \<and> filter is_attempt (calls_since tr tr') =
                   [CreateProgram, CreateShader GL_VERTEX_SHADER, CompileShader (Shader_id' vertex),
                    CreateShader GL_FRAGMENT_SHADER, CompileShader (Shader_id' fragment),
                    LinkProgram pid]"
    if "pid \<noteq> 0" "GetProgramiv_ret drv trl pid GL_LINK_STATUS \<noteq> GL_TRUE"
    using that evb(2) unfolding ctor bv by (simp add: trl' pre calls_since_def dtor_unfold)
qed

section \<open>The examples, evaluated\<close>

lemma built_ok_eq: "built_ok = (Inr program_ok, snd built_ok)"
  by (simp add: built_ok_def ShaderProgram_ctor_def Shader_ctor_def driver_ok_def program_ok_def
      GL_TRUE_def OrphaningVertexBuffer_ctor_def VertexBuffer_ctor_def bind_def
      ShaderProgram_ctor_body_def Shader_id_def Let_def)

lemma run_first_cache: "uniform_cache' (fst (snd run_first)) ''u'' = Some 5"
  by (simp add: run_first_def Use_def setUniform1i_def getUniformId_def emplace_def
      addVertexData_def AddVertexData_def bind_def of_set_result_def driver_ok_def program_ok_def
      Let_def split: prod.splits)

lemma buffer_filled_cursor: "nextVertex' (fst buffer_filled) = 65530"
  by (simp add: buffer_filled_def buffer_ok_def AddVertexData_unfold kVertexCount_eq)

section \<open>Properties\<close>

text \<open>
  C1. The claim: for a uniform name that the driver reports at location \<open>-1\<close>, every
  call of \<open>setUniformMat4f\<close>, \<open>setUniform1i\<close>, \<open>setUniform1f\<close> or \<open>setUniform4fv\<close>
  with that name throws, a repeated call included. The program built on \<open>driver_ok\<close>
  has no uniform \<open>w\<close>. Of four setter calls with \<open>w\<close> the first throws; the three
  that follow return, and each hands \<open>-1\<close> to the driver's uniform-set call. The only
  driver query is the one of the first call.
\<close>

theorem missing_uniform_throws_only_once:
  "fst (ShaderProgram_ctor driver_ok 16 ''v'' ''f'' [] []) = Inr program_ok
   \<and> (\<forall>tr h. GetUniformLocation_ret driver_ok tr h ''w'' = - 1)
   \<and> fst (do_calls driver_ok 16
            [Call_setUniformMat4f ''w'' (replicate 16 0), Call_setUniform1i ''w'' 0,
             Call_setUniform1f ''w'' 0, Call_setUniform4fv ''w'' 0 0 0 0]
            program_ok []) =
       [Thrown (runtime_error ''uniform w nonexistent or inactive''), Returned, Returned, Returned]
   \<and> snd (snd (do_calls driver_ok 16
            [Call_setUniformMat4f ''w'' (replicate 16 0), Call_setUniform1i ''w'' 0,
             Call_setUniform1f ''w'' 0, Call_setUniform4fv ''w'' 0 0 0 0]
            program_ok [])) =
       [GetUniformLocation 3 ''w'', Uniform1i (- 1) 0, Uniform1f (- 1) 0, Uniform4f (- 1) 0 0 0 0]"
proof -
  have built: "fst (ShaderProgram_ctor driver_ok 16 ''v'' ''f'' [] []) = Inr program_ok"
    by (metis built_ok_eq built_ok_def fst_conv)
  have absent: "\<forall>tr h. GetUniformLocation_ret driver_ok tr h ''w'' = - 1"
    by (simp add: driver_ok_def)
  have calls: "do_calls driver_ok 16
            [Call_setUniformMat4f ''w'' (replicate 16 0), Call_setUniform1i ''w'' 0,
             Call_setUniform1f ''w'' 0, Call_setUniform4fv ''w'' 0 0 0 0]
            program_ok [] =
       ([Thrown (runtime_error ''uniform w nonexistent or inactive''), Returned, Returned, Returned],
        program_ok\<lparr>uniform_cache' := [''w'' \<mapsto> - 1]\<rparr>,
        [GetUniformLocation 3 ''w'', Uniform1i (- 1) 0, Uniform1f (- 1) 0, Uniform4f (- 1) 0 0 0 0])"
    by (simp add: setUniformMat4f_def setUniform1i_def setUniform1f_def setUniform4fv_def
        getUniformId_def emplace_def of_set_result_def driver_ok_def program_ok_def Let_def)
  from built absent calls show ?thesis by simp
qed

text \<open>
  C2. On a buffer reached from its constructor by any sequence of \<open>AddVertexData\<close>
  calls, a call with \<open>count\<close> vertices does this. The capacity is 65536. If the cursor
  plus \<open>count\<close> is at least 65536, the calls made are the bind, the \<open>dglBufferData\<close>
  with null data over the whole capacity, then the mapping, the copy of all the
  vertices and the unmapping; the start returned is 0. Otherwise no \<open>dglBufferData\<close>
  is made and the start returned is the cursor. In both cases the cursor afterwards
  is the start returned plus \<open>count\<close>.
\<close>

theorem AddVertexData_orphans_on_overflow:
  assumes fresh: "nextVertex' b0 = 0"
      and hist: "\<forall>vs \<in> set history. valid_range vs"
      and reached: "AddVertexData_seq drv szV history b0 tr0 = (b, tr)"
      and rng: "valid_range vs"
      and call: "AddVertexData drv szV b vs tr = (start, b', tr')"
  shows "kVertexCount = 65536
       \<and> (if 65536 \<le> unat (nextVertex' b) + length vs
           then start = 0
              \<and> (\<exists>mapped. calls_since tr tr' =
                    [BindBuffer GL_ARRAY_BUFFER (VertexBuffer_vbo' b),
                     BufferData GL_ARRAY_BUFFER (kVertexCount * szV) None kBufferType,
                     MapBufferRange GL_ARRAY_BUFFER (start * szV) (word_of_nat (length vs) * szV)
                       (or GL_MAP_WRITE_BIT GL_MAP_UNSYNCHRONIZED_BIT),
                     CopyToMapped mapped vs,
                     UnmapBuffer GL_ARRAY_BUFFER])
           else start = nextVertex' b
              \<and> (\<exists>mapped. calls_since tr tr' =
                    [BindBuffer GL_ARRAY_BUFFER (VertexBuffer_vbo' b),
                     MapBufferRange GL_ARRAY_BUFFER (start * szV) (word_of_nat (length vs) * szV)
                       (or GL_MAP_WRITE_BIT GL_MAP_UNSYNCHRONIZED_BIT),
                     CopyToMapped mapped vs,
                     UnmapBuffer GL_ARRAY_BUFFER]))
       \<and> unat (nextVertex' b') = unat start + length vs"
proof -
  have sum: "unat (nextVertex' b) + length vs < 2 ^ 64"
    using reached_sum [OF fresh hist reached rng] .
  have len: "length vs < 2 ^ 64" using sum by simp
  show ?thesis
  proof (cases "65536 \<le> unat (nextVertex' b) + length vs")
    case True
    then have "kVertexCount \<le> nextVertex' b + word_of_nat (length vs)"
      using overflow_test [OF sum] by simp
    with call True len show ?thesis
      by (auto simp: AddVertexData_unfold calls_since_def kVertexCount_eq unat_dist)
  next
    case False
    then have "\<not> kVertexCount \<le> nextVertex' b + word_of_nat (length vs)"
      using overflow_test [OF sum] by simp
    with call False sum show ?thesis
      by (auto simp: AddVertexData_unfold calls_since_def kVertexCount_eq unat_cursor_plus)
  qed
qed

theorem AddVertexData_orphans_on_overflow_witness:
  "nextVertex' buffer_ok = 0
   \<and> valid_range (replicate 65530 (0::nat))
   \<and> valid_range [1, 2, 3, 4, 5, 6 :: nat]
   \<and> nextVertex' (fst buffer_filled) = 65530
   \<and> fst (AddVertexData driver_ok 16 (fst buffer_filled) [1, 2, 3, 4, 5, 6] (snd buffer_filled)) = 0
   \<and> unat (nextVertex' (fst (snd
        (AddVertexData driver_ok 16 (fst buffer_filled) [1, 2, 3, 4, 5, 6] (snd buffer_filled))))) = 6"
proof -
  have fresh: "nextVertex' buffer_ok = 0" by (simp add: buffer_ok_def)
  have hist: "\<forall>vs \<in> set [replicate 65530 (0::nat)]. valid_range vs"
    by (simp add: valid_range_def)
  have reached: "AddVertexData_seq driver_ok 16 [replicate 65530 0] buffer_ok [] =
                   (fst buffer_filled, snd buffer_filled)"
    by (simp add: buffer_filled_def)
  have rng: "valid_range [1, 2, 3, 4, 5, 6 :: nat]" by (simp add: valid_range_def)
  have call: "AddVertexData driver_ok 16 (fst buffer_filled) [1, 2, 3, 4, 5, 6] (snd buffer_filled) =
     (fst (AddVertexData driver_ok 16 (fst buffer_filled) [1, 2, 3, 4, 5, 6] (snd buffer_filled)),
      fst (snd (AddVertexData driver_ok 16 (fst buffer_filled) [1, 2, 3, 4, 5, 6] (snd buffer_filled))),
      snd (snd (AddVertexData driver_ok 16 (fst buffer_filled) [1, 2, 3, 4, 5, 6] (snd buffer_filled))))"
    by simp
  from AddVertexData_orphans_on_overflow [OF fresh hist reached rng call]
  have "fst (AddVertexData driver_ok 16 (fst buffer_filled) [1, 2, 3, 4, 5, 6] (snd buffer_filled)) = 0
      \<and> unat (nextVertex' (fst (snd
        (AddVertexData driver_ok 16 (fst buffer_filled) [1, 2, 3, 4, 5, 6] (snd buffer_filled))))) = 6"
    by (simp add: buffer_filled_cursor)
  with fresh hist rng show ?thesis by (simp add: buffer_filled_cursor)
qed

text \<open>
  C3, as amended. Each of the four failure conditions is signalled by a thrown
  \<open>runtime_error\<close>, after each step was tried once and with no further attempt. For a
  shader that does not compile and for a program that does not link, the message is
  the text the driver returned to the info-log query made at that point. For a shader
  or program handle of zero and for a uniform reported at \<open>-1\<close> on the lookup that
  asks the driver, the message is a fixed text of the file's own: \<open>failed to create
  shader\<close>, \<open>error creating GL program\<close>, \<open>uniform <name> nonexistent or inactive\<close>.
  An error thrown by the constructor of either shader is the error the constructor of
  the program throws.
\<close>

theorem failures_are_thrown_errors:
  fixes drv :: "'v driver" and tr trb :: "'v gl_call list" and kType :: shader_kind
    and src :: string and szV :: size_t and attribs :: "VertexAttrib list"
    and vertex fragment :: Shader
  defines "h \<equiv> CreateShader_ret drv tr kType"
      and "pid \<equiv> CreateProgram_ret drv tr"
  defines "trc \<equiv> tr @ [CreateShader kType, ShaderSource h 1 src (word_of_nat (length src)),
                        CompileShader h]"
      and "trl \<equiv> snd (OrphaningVertexBuffer_ctor drv szV pid attribs trb) @
                    [AttachShader pid (Shader_id' vertex), AttachShader pid (Shader_id' fragment),
                     LinkProgram pid]"
  shows
    "(h = 0 \<longrightarrow>
        (\<exists>tr'. Shader_ctor drv kType src tr =
                 (Inl (runtime_error ''failed to create shader''), tr')
             \<and> filter is_attempt (calls_since tr tr') = [CreateShader kType]))
   \<and> (h \<noteq> 0 \<and> GetShaderiv_ret drv trc h GL_COMPILE_STATUS \<noteq> GL_TRUE \<longrightarrow>
        (\<exists>tr'. Shader_ctor drv kType src tr =
                 (Inl (runtime_error
                         (GetShaderInfoLog_ret drv (trc @ [GetShaderiv h GL_COMPILE_STATUS]) h 1024)),
                  tr')
             \<and> filter is_attempt (calls_since tr tr') = [CreateShader kType, CompileShader h]))
   \<and> (Shader_ctor drv GL_VERTEX_SHADER vertexSrc (tr @ [CreateProgram]) = (Inl e, tra) \<longrightarrow>
        (\<exists>tr'. ShaderProgram_ctor drv szV vertexSrc fragmentSrc attribs tr = (Inl e, tr')))
   \<and> (Shader_ctor drv GL_VERTEX_SHADER vertexSrc (tr @ [CreateProgram]) = (Inr vertex, tra)
        \<and> Shader_ctor drv GL_FRAGMENT_SHADER fragmentSrc tra = (Inl e, trb) \<longrightarrow>
        (\<exists>tr'. ShaderProgram_ctor drv szV vertexSrc fragmentSrc attribs tr = (Inl e, tr')))
   \<and> (Shader_ctor drv GL_VERTEX_SHADER vertexSrc (tr @ [CreateProgram]) = (Inr vertex, tra)
        \<and> Shader_ctor drv GL_FRAGMENT_SHADER fragmentSrc tra = (Inr fragment, trb)
        \<and> pid = 0 \<longrightarrow>
        (\<exists>tr'. ShaderProgram_ctor drv szV vertexSrc fragmentSrc attribs tr =
                 (Inl (runtime_error ''error creating GL program''), tr')
             \<and> filter is_attempt (calls_since tr tr') =
                 [CreateProgram, CreateShader GL_VERTEX_SHADER, CompileShader (Shader_id' vertex),
                  CreateShader GL_FRAGMENT_SHADER, CompileShader (Shader_id' fragment)]))
   \<and> (Shader_ctor drv GL_VERTEX_SHADER vertexSrc (tr @ [CreateProgram]) = (Inr vertex, tra)
        \<and> Shader_ctor drv GL_FRAGMENT_SHADER fragmentSrc tra = (Inr fragment, trb)
        \<and> pid \<noteq> 0 \<and> GetProgramiv_ret drv trl pid GL_LINK_STATUS \<noteq> GL_TRUE \<longrightarrow>
        (\<exists>tr'. ShaderProgram_ctor drv szV vertexSrc fragmentSrc attribs tr =
                 (Inl (runtime_error
                         (GetProgramInfoLog_ret drv (trl @ [GetProgramiv pid GL_LINK_STATUS])
                            pid 1024)), tr')
             \<and> filter is_attempt (calls_since tr tr') =
                 [CreateProgram, CreateShader GL_VERTEX_SHADER, CompileShader (Shader_id' vertex),
                  CreateShader GL_FRAGMENT_SHADER, CompileShader (Shader_id' fragment),
                  LinkProgram pid]))
   \<and> (uniform_cache' p nm = None
        \<and> GetUniformLocation_ret drv tr (ShaderProgram_id' p) nm = - 1 \<longrightarrow>
        (\<exists>p' tr'. getUniformId drv p nm tr =
                 (Inl (runtime_error (''uniform '' @ nm @ '' nonexistent or inactive'')), p', tr')
             \<and> filter is_attempt (calls_since tr tr') =
                 [GetUniformLocation (ShaderProgram_id' p) nm]))"
proof (intro conjI impI)
  assume "h = 0"
  then show "\<exists>tr'. Shader_ctor drv kType src tr =
                 (Inl (runtime_error ''failed to create shader''), tr')
             \<and> filter is_attempt (calls_since tr tr') = [CreateShader kType]"
    unfolding h_def by (rule Shader_ctor_zero_handle)
next
  assume "h \<noteq> 0 \<and> GetShaderiv_ret drv trc h GL_COMPILE_STATUS \<noteq> GL_TRUE"
  then show "\<exists>tr'. Shader_ctor drv kType src tr =
                 (Inl (runtime_error
                         (GetShaderInfoLog_ret drv (trc @ [GetShaderiv h GL_COMPILE_STATUS]) h 1024)),
                  tr')
             \<and> filter is_attempt (calls_since tr tr') = [CreateShader kType, CompileShader h]"
    using Shader_ctor_compile_error [of drv tr kType h trc src]
    by (simp add: h_def trc_def)
next
  assume "Shader_ctor drv GL_VERTEX_SHADER vertexSrc (tr @ [CreateProgram]) = (Inl e, tra)"
  then show "\<exists>tr'. ShaderProgram_ctor drv szV vertexSrc fragmentSrc attribs tr = (Inl e, tr')"
    by (rule ShaderProgram_ctor_shader_error(1))
next
  assume "Shader_ctor drv GL_VERTEX_SHADER vertexSrc (tr @ [CreateProgram]) = (Inr vertex, tra)
        \<and> Shader_ctor drv GL_FRAGMENT_SHADER fragmentSrc tra = (Inl e, trb)"
  then show "\<exists>tr'. ShaderProgram_ctor drv szV vertexSrc fragmentSrc attribs tr = (Inl e, tr')"
    by (blast intro: ShaderProgram_ctor_shader_error(2))
next
  assume a: "Shader_ctor drv GL_VERTEX_SHADER vertexSrc (tr @ [CreateProgram]) = (Inr vertex, tra)
        \<and> Shader_ctor drv GL_FRAGMENT_SHADER fragmentSrc tra = (Inr fragment, trb)
        \<and> pid = 0"
  then have v: "Shader_ctor drv GL_VERTEX_SHADER vertexSrc (tr @ [CreateProgram]) = (Inr vertex, tra)"
    and f: "Shader_ctor drv GL_FRAGMENT_SHADER fragmentSrc tra = (Inr fragment, trb)"
    and z: "pid = 0"
    by simp_all
  have pid: "CreateProgram_ret drv tr = pid" by (simp add: pid_def)
  from ShaderProgram_ctor_body_errors(1) [OF v f pid refl z]
  show "\<exists>tr'. ShaderProgram_ctor drv szV vertexSrc fragmentSrc attribs tr =
                 (Inl (runtime_error ''error creating GL program''), tr')
             \<and> filter is_attempt (calls_since tr tr') =
                 [CreateProgram, CreateShader GL_VERTEX_SHADER, CompileShader (Shader_id' vertex),
                  CreateShader GL_FRAGMENT_SHADER, CompileShader (Shader_id' fragment)]" .
next
  assume a: "Shader_ctor drv GL_VERTEX_SHADER vertexSrc (tr @ [CreateProgram]) = (Inr vertex, tra)
        \<and> Shader_ctor drv GL_FRAGMENT_SHADER fragmentSrc tra = (Inr fragment, trb)
        \<and> pid \<noteq> 0 \<and> GetProgramiv_ret drv trl pid GL_LINK_STATUS \<noteq> GL_TRUE"
  then have v: "Shader_ctor drv GL_VERTEX_SHADER vertexSrc (tr @ [CreateProgram]) = (Inr vertex, tra)"
    and f: "Shader_ctor drv GL_FRAGMENT_SHADER fragmentSrc tra = (Inr fragment, trb)"
    and nz: "pid \<noteq> 0"
    and st: "GetProgramiv_ret drv trl pid GL_LINK_STATUS \<noteq> GL_TRUE"
    by simp_all
  have pid: "CreateProgram_ret drv tr = pid" by (simp add: pid_def)
  have trl: "trl = snd (OrphaningVertexBuffer_ctor drv szV pid attribs trb) @
                    [AttachShader pid (Shader_id' vertex), AttachShader pid (Shader_id' fragment),
                     LinkProgram pid]"
    by (simp add: trl_def)
  from ShaderProgram_ctor_body_errors(2) [OF v f pid trl nz st]
  show "\<exists>tr'. ShaderProgram_ctor drv szV vertexSrc fragmentSrc attribs tr =
                 (Inl (runtime_error
                         (GetProgramInfoLog_ret drv (trl @ [GetProgramiv pid GL_LINK_STATUS])
                            pid 1024)), tr')
             \<and> filter is_attempt (calls_since tr tr') =
                 [CreateProgram, CreateShader GL_VERTEX_SHADER, CompileShader (Shader_id' vertex),
                  CreateShader GL_FRAGMENT_SHADER, CompileShader (Shader_id' fragment),
                  LinkProgram pid]" .
next
  assume "uniform_cache' p nm = None
        \<and> GetUniformLocation_ret drv tr (ShaderProgram_id' p) nm = - 1"
  then show "\<exists>p' tr'. getUniformId drv p nm tr =
                 (Inl (runtime_error (''uniform '' @ nm @ '' nonexistent or inactive'')), p', tr')
             \<and> filter is_attempt (calls_since tr tr') =
                 [GetUniformLocation (ShaderProgram_id' p) nm]"
    by (blast intro: getUniformId_missing)
qed

theorem failures_are_thrown_errors_witness:
  "CreateShader_ret driver_no_shader [] GL_VERTEX_SHADER = 0
   \<and> fst (Shader_ctor driver_no_shader GL_VERTEX_SHADER ''v'' []) =
       Inl (runtime_error ''failed to create shader'')
   \<and> fst (Shader_ctor driver_bad_compile GL_VERTEX_SHADER ''v'' []) =
       Inl (runtime_error ''0:1: syntax error'')
   \<and> fst (ShaderProgram_ctor driver_bad_compile 16 ''v'' ''f'' [] []) =
       Inl (runtime_error ''0:1: syntax error'')
   \<and> fst (ShaderProgram_ctor driver_bad_fragment 16 ''v'' ''f'' [] []) =
       Inl (runtime_error ''0:7: undeclared identifier'')
   \<and> CreateProgram_ret driver_no_program [] = 0
   \<and> fst (ShaderProgram_ctor driver_no_program 16 ''v'' ''f'' [] []) =
       Inl (runtime_error ''error creating GL program'')
   \<and> fst (ShaderProgram_ctor driver_bad_link 16 ''v'' ''f'' [] []) =
       Inl (runtime_error ''unresolved varying'')
   \<and> uniform_cache' program_ok ''w'' = None
   \<and> GetUniformLocation_ret driver_ok [] (ShaderProgram_id' program_ok) ''w'' = - 1
   \<and> fst (getUniformId driver_ok program_ok ''w'' []) =
       Inl (runtime_error ''uniform w nonexistent or inactive'')"
proof -
  note ev = Shader_ctor_def driver_ok_def GL_TRUE_def Let_def MoveOnlyHolder_dtor_def
    DeleteShader_fn_def
  have h1: "CreateShader_ret driver_no_shader [] GL_VERTEX_SHADER = 0"
    by (simp add: driver_no_shader_def driver_ok_def)
  from failures_are_thrown_errors
    [where drv = driver_no_shader and tr = "[]" and kType = GL_VERTEX_SHADER and src = "''v''",
     THEN conjunct1] h1
  have w1: "fst (Shader_ctor driver_no_shader GL_VERTEX_SHADER ''v'' []) =
       Inl (runtime_error ''failed to create shader'')"
    by auto
  have h2: "CreateShader_ret driver_bad_compile [] GL_VERTEX_SHADER \<noteq> 0
      \<and> GetShaderiv_ret driver_bad_compile
          ([] @ [CreateShader GL_VERTEX_SHADER,
                 ShaderSource (CreateShader_ret driver_bad_compile [] GL_VERTEX_SHADER) 1 ''v''
                   (word_of_nat (length ''v'')),
                 CompileShader (CreateShader_ret driver_bad_compile [] GL_VERTEX_SHADER)])
          (CreateShader_ret driver_bad_compile [] GL_VERTEX_SHADER) GL_COMPILE_STATUS \<noteq> GL_TRUE"
    by (simp add: driver_bad_compile_def driver_ok_def GL_TRUE_def)
  from failures_are_thrown_errors
    [where drv = driver_bad_compile and tr = "[]" and kType = GL_VERTEX_SHADER and src = "''v''",
     THEN conjunct2, THEN conjunct1, rule_format, OF h2]
  have w2: "fst (Shader_ctor driver_bad_compile GL_VERTEX_SHADER ''v'' []) =
       Inl (runtime_error ''0:1: syntax error'')"
    by (auto simp: driver_bad_compile_def driver_ok_def)
  have h3: "Shader_ctor driver_bad_compile GL_VERTEX_SHADER ''v'' ([] @ [CreateProgram]) =
      (Inl (runtime_error ''0:1: syntax error''),
       snd (Shader_ctor driver_bad_compile GL_VERTEX_SHADER ''v'' ([] @ [CreateProgram])))"
    by (simp add: driver_bad_compile_def ev)
  from failures_are_thrown_errors
    [where drv = driver_bad_compile and tr = "[]" and vertexSrc = "''v''" and szV = 16
       and fragmentSrc = "''f''" and attribs = "[]",
     THEN conjunct2, THEN conjunct2, THEN conjunct1, rule_format, OF h3]
  have w3: "fst (ShaderProgram_ctor driver_bad_compile 16 ''v'' ''f'' [] []) =
       Inl (runtime_error ''0:1: syntax error'')"
    by auto
  have h4: "Shader_ctor driver_bad_fragment GL_VERTEX_SHADER ''v'' ([] @ [CreateProgram]) =
      (Inr \<lparr>Shader_id' = 1\<rparr>,
       snd (Shader_ctor driver_bad_fragment GL_VERTEX_SHADER ''v'' ([] @ [CreateProgram])))
    \<and> Shader_ctor driver_bad_fragment GL_FRAGMENT_SHADER ''f''
        (snd (Shader_ctor driver_bad_fragment GL_VERTEX_SHADER ''v'' ([] @ [CreateProgram]))) =
      (Inl (runtime_error ''0:7: undeclared identifier''),
       snd (Shader_ctor driver_bad_fragment GL_FRAGMENT_SHADER ''f''
        (snd (Shader_ctor driver_bad_fragment GL_VERTEX_SHADER ''v'' ([] @ [CreateProgram])))))"
    by (simp add: driver_bad_fragment_def ev)
  from failures_are_thrown_errors
    [where drv = driver_bad_fragment and tr = "[]" and vertexSrc = "''v''" and szV = 16
       and fragmentSrc = "''f''" and attribs = "[]",
     THEN conjunct2, THEN conjunct2, THEN conjunct2, THEN conjunct1, rule_format, OF h4]
  have w4: "fst (ShaderProgram_ctor driver_bad_fragment 16 ''v'' ''f'' [] []) =
       Inl (runtime_error ''0:7: undeclared identifier'')"
    by auto
  have z5: "CreateProgram_ret driver_no_program [] = 0"
    by (simp add: driver_no_program_def driver_ok_def)
  have h5: "Shader_ctor driver_no_program GL_VERTEX_SHADER ''v'' ([] @ [CreateProgram]) =
      (Inr \<lparr>Shader_id' = 1\<rparr>,
       snd (Shader_ctor driver_no_program GL_VERTEX_SHADER ''v'' ([] @ [CreateProgram])))
    \<and> Shader_ctor driver_no_program GL_FRAGMENT_SHADER ''f''
        (snd (Shader_ctor driver_no_program GL_VERTEX_SHADER ''v'' ([] @ [CreateProgram]))) =
      (Inr \<lparr>Shader_id' = 2\<rparr>,
       snd (Shader_ctor driver_no_program GL_FRAGMENT_SHADER ''f''
        (snd (Shader_ctor driver_no_program GL_VERTEX_SHADER ''v'' ([] @ [CreateProgram])))))
    \<and> CreateProgram_ret driver_no_program [] = 0"
    by (simp add: driver_no_program_def ev)
  from failures_are_thrown_errors
    [where drv = driver_no_program and tr = "[]" and vertexSrc = "''v''" and szV = 16
       and fragmentSrc = "''f''" and attribs = "[]",
     THEN conjunct2, THEN conjunct2, THEN conjunct2, THEN conjunct2, THEN conjunct1,
     rule_format, OF h5]
  have w5: "fst (ShaderProgram_ctor driver_no_program 16 ''v'' ''f'' [] []) =
       Inl (runtime_error ''error creating GL program'')"
    by auto
  have h6: "Shader_ctor driver_bad_link GL_VERTEX_SHADER ''v'' ([] @ [CreateProgram]) =
      (Inr \<lparr>Shader_id' = 1\<rparr>,
       snd (Shader_ctor driver_bad_link GL_VERTEX_SHADER ''v'' ([] @ [CreateProgram])))
    \<and> Shader_ctor driver_bad_link GL_FRAGMENT_SHADER ''f''
        (snd (Shader_ctor driver_bad_link GL_VERTEX_SHADER ''v'' ([] @ [CreateProgram]))) =
      (Inr \<lparr>Shader_id' = 2\<rparr>,
       snd (Shader_ctor driver_bad_link GL_FRAGMENT_SHADER ''f''
        (snd (Shader_ctor driver_bad_link GL_VERTEX_SHADER ''v'' ([] @ [CreateProgram])))))
    \<and> CreateProgram_ret driver_bad_link [] \<noteq> 0
    \<and> GetProgramiv_ret driver_bad_link
        (snd (OrphaningVertexBuffer_ctor driver_bad_link 16 (CreateProgram_ret driver_bad_link [])
                []
                (snd (Shader_ctor driver_bad_link GL_FRAGMENT_SHADER ''f''
                  (snd (Shader_ctor driver_bad_link GL_VERTEX_SHADER ''v''
                     ([] @ [CreateProgram])))))) @
           [AttachShader (CreateProgram_ret driver_bad_link []) (Shader_id' \<lparr>Shader_id' = 1\<rparr>),
            AttachShader (CreateProgram_ret driver_bad_link []) (Shader_id' \<lparr>Shader_id' = 2\<rparr>),
            LinkProgram (CreateProgram_ret driver_bad_link [])])
        (CreateProgram_ret driver_bad_link []) GL_LINK_STATUS \<noteq> GL_TRUE"
    by (simp add: driver_bad_link_def ev)
  from failures_are_thrown_errors
    [where drv = driver_bad_link and tr = "[]" and vertexSrc = "''v''" and szV = 16
       and fragmentSrc = "''f''" and attribs = "[]",
     THEN conjunct2, THEN conjunct2, THEN conjunct2, THEN conjunct2, THEN conjunct2,
     THEN conjunct1, rule_format, OF h6]
  have w6: "fst (ShaderProgram_ctor driver_bad_link 16 ''v'' ''f'' [] []) =
       Inl (runtime_error ''unresolved varying'')"
    by (auto simp: driver_bad_link_def driver_ok_def)
  have h7: "uniform_cache' program_ok ''w'' = None
    \<and> GetUniformLocation_ret driver_ok [] (ShaderProgram_id' program_ok) ''w'' = - 1"
    by (simp add: program_ok_def driver_ok_def)
  from failures_are_thrown_errors
    [where drv = driver_ok and tr = "[]" and p = program_ok and nm = "''w''",
     THEN conjunct2, THEN conjunct2, THEN conjunct2, THEN conjunct2, THEN conjunct2,
     THEN conjunct2, rule_format, OF h7]
  have w7: "fst (getUniformId driver_ok program_ok ''w'' []) =
       Inl (runtime_error ''uniform w nonexistent or inactive'')"
    by auto
  from h1 w1 w2 w3 w4 z5 w5 w6 h7 w7 show ?thesis by simp
qed

text \<open>
  C3 as stated fails for a zero handle: on \<open>driver_no_shader\<close> the constructor of a
  shader throws \<open>failed to create shader\<close>, which is not the driver's log text.
\<close>

theorem zero_handle_message_counterexample:
  "fst (Shader_ctor driver_no_shader GL_VERTEX_SHADER ''v'' []) =
     Inl (runtime_error ''failed to create shader'')
   \<and> GetShaderInfoLog_ret driver_no_shader [CreateShader GL_VERTEX_SHADER] 0 1024 = ''out of memory''
   \<and> fst (Shader_ctor driver_no_shader GL_VERTEX_SHADER ''v'' []) \<noteq>
     Inl (runtime_error
            (GetShaderInfoLog_ret driver_no_shader [CreateShader GL_VERTEX_SHADER] 0 1024))"
  by (simp add: Shader_ctor_def driver_no_shader_def driver_ok_def Let_def)

text \<open>
  C4. On a program as its constructor returned it, after any calls \<open>cs1\<close> followed by
  any calls \<open>cs2\<close>: the calls made since construction hold at most one
  \<open>dglGetUniformLocation\<close> for a name, and for the program's own handle exactly one if
  the name is in the cache and none if it is not. A name that was in the cache after
  \<open>cs1\<close> is looked up after \<open>cs2\<close> without any driver call, and the lookup returns
  the location cached then. A name not yet in the cache is looked up by one driver
  query, whose answer is cached.
\<close>

theorem uniform_location_queried_at_most_once:
  assumes built: "ShaderProgram_ctor drv szV vertexSrc fragmentSrc attribs tr = (Inr p0, tr0)"
      and first: "do_calls drv szV cs1 p0 tr0 = (rs1, p1, tr1)"
      and later: "do_calls drv szV cs2 p1 tr1 = (rs2, p2, tr2)"
  shows "count_list (calls_since tr0 tr2) (GetUniformLocation h nm) \<le> 1
       \<and> count_list (calls_since tr0 tr2) (GetUniformLocation (ShaderProgram_id' p0) nm) =
           (if uniform_cache' p2 nm = None then 0 else 1)
       \<and> (\<forall>loc. uniform_cache' p1 nm = Some loc \<longrightarrow>
             getUniformId drv p2 nm tr2 = (Inr loc, p2, tr2))
       \<and> (uniform_cache' p2 nm = None \<longrightarrow>
             (\<exists>r p3. getUniformId drv p2 nm tr2 =
                  (r, p3, tr2 @ [GetUniformLocation (ShaderProgram_id' p0) nm])
                \<and> uniform_cache' p3 nm =
                    Some (GetUniformLocation_ret drv tr2 (ShaderProgram_id' p0) nm)))"
proof -
  have fresh: "uniform_cache' p0 nm = None"
    using ShaderProgram_ctor_Inr(1) [OF built] by simp
  have keep1: "ShaderProgram_id' p1 = ShaderProgram_id' p0"
    and mono1: "\<And>loc. uniform_cache' p0 nm = Some loc \<Longrightarrow> uniform_cache' p1 nm = Some loc"
    using do_calls_keeps [OF first] by auto
  have keep2: "ShaderProgram_id' p2 = ShaderProgram_id' p1"
    and mono2: "\<And>loc. uniform_cache' p1 nm = Some loc \<Longrightarrow> uniform_cache' p2 nm = Some loc"
    using do_calls_keeps [OF later] by auto
  have count: "count_list (calls_since tr0 tr2) (GetUniformLocation g nm) =
         (if uniform_cache' p2 nm \<noteq> None \<and> g = ShaderProgram_id' p0 then 1 else 0)" for g
  proof -
    from do_calls_trace [OF first, of g nm] obtain ev1 where
      ev1: "tr1 = tr0 @ ev1"
        "count_list ev1 (GetUniformLocation g nm) =
           (if uniform_cache' p0 nm = None \<and> uniform_cache' p1 nm \<noteq> None
               \<and> g = ShaderProgram_id' p0 then 1 else 0)"
      by blast
    from do_calls_trace [OF later, of g nm] obtain ev2 where
      ev2: "tr2 = tr1 @ ev2"
        "count_list ev2 (GetUniformLocation g nm) =
           (if uniform_cache' p1 nm = None \<and> uniform_cache' p2 nm \<noteq> None
               \<and> g = ShaderProgram_id' p1 then 1 else 0)"
      by blast
    have "calls_since tr0 tr2 = ev1 @ ev2"
      using ev1(1) ev2(1) by (simp add: calls_since_def)
    then show ?thesis
      using ev1(2) ev2(2) fresh keep1 mono2
      by (cases "uniform_cache' p1 nm") auto
  qed
  have once: "count_list (calls_since tr0 tr2) (GetUniformLocation h nm) \<le> 1"
    by (simp add: count)
  have exact: "count_list (calls_since tr0 tr2) (GetUniformLocation (ShaderProgram_id' p0) nm) =
           (if uniform_cache' p2 nm = None then 0 else 1)"
    by (simp add: count)
  have served: "\<forall>loc. uniform_cache' p1 nm = Some loc \<longrightarrow>
             getUniformId drv p2 nm tr2 = (Inr loc, p2, tr2)"
    using mono2 by (auto intro: getUniformId_hit)
  have lazy: "uniform_cache' p2 nm = None \<longrightarrow>
             (\<exists>r p3. getUniformId drv p2 nm tr2 =
                  (r, p3, tr2 @ [GetUniformLocation (ShaderProgram_id' p0) nm])
                \<and> uniform_cache' p3 nm =
                    Some (GetUniformLocation_ret drv tr2 (ShaderProgram_id' p0) nm))"
    using keep1 keep2 by (simp add: getUniformId_miss Let_def)
  from once exact served lazy show ?thesis by simp
qed

theorem uniform_location_queried_at_most_once_witness:
  "ShaderProgram_ctor driver_ok 16 ''v'' ''f'' [] [] = (Inr program_ok, snd built_ok)
   \<and> uniform_cache' (fst (snd run_first)) ''u'' = Some 5
   \<and> count_list (calls_since (snd built_ok) (snd (snd run_later))) (GetUniformLocation 3 ''u'') = 1
   \<and> getUniformId driver_ok (fst (snd run_later)) ''u'' (snd (snd run_later)) =
        (Inr 5, fst (snd run_later), snd (snd run_later))
   \<and> uniform_cache' (fst (snd run_later)) ''w'' = None
   \<and> count_list (calls_since (snd built_ok) (snd (snd run_later))) (GetUniformLocation 3 ''w'') = 0"
proof -
  have built: "ShaderProgram_ctor driver_ok 16 ''v'' ''f'' [] [] = (Inr program_ok, snd built_ok)"
    using built_ok_eq by (simp add: built_ok_def)
  have first: "do_calls driver_ok 16
        [Call_Use, Call_setUniform1i ''u'' 1, Call_addVertexData [10, 20, 30]]
        program_ok (snd built_ok) = (fst run_first, fst (snd run_first), snd (snd run_first))"
    by (simp add: run_first_def)
  have later: "do_calls driver_ok 16 [Call_setUniform1f ''u'' 2, Call_Unuse]
        (fst (snd run_first)) (snd (snd run_first)) =
        (fst run_later, fst (snd run_later), snd (snd run_later))"
    by (simp add: run_later_def)
  have id0: "ShaderProgram_id' program_ok = 3" by (simp add: program_ok_def)
  have cached: "uniform_cache' (fst (snd run_first)) ''u'' = Some 5" by (rule run_first_cache)
  then have cached2: "uniform_cache' (fst (snd run_later)) ''u'' \<noteq> None"
    using do_calls_keeps [OF later] by auto
  have absent: "uniform_cache' (fst (snd run_later)) ''w'' = None"
    by (simp add: run_later_def run_first_def Use_def Unuse_def setUniform1i_def setUniform1f_def
        getUniformId_def emplace_def addVertexData_def AddVertexData_def bind_def
        of_set_result_def driver_ok_def program_ok_def Let_def split: prod.splits)
  from uniform_location_queried_at_most_once [OF built first later, of _ "''u''"] cached cached2 id0
  have u: "count_list (calls_since (snd built_ok) (snd (snd run_later)))
             (GetUniformLocation 3 ''u'') = 1
         \<and> getUniformId driver_ok (fst (snd run_later)) ''u'' (snd (snd run_later)) =
             (Inr 5, fst (snd run_later), snd (snd run_later))"
    by simp
  from uniform_location_queried_at_most_once [OF built first later, of _ "''w''"] absent id0
  have w: "count_list (calls_since (snd built_ok) (snd (snd run_later)))
             (GetUniformLocation 3 ''w'') = 0"
    by simp
  from built cached u absent w show ?thesis by simp
qed

text \<open>
  C5. \<open>AddVertexData\<close> returns a start index for every buffer, whatever its cursor, and
  every range: it has no error result, and through \<open>ShaderProgram::addVertexData\<close> the
  call returns and does not throw. The mapping it asks for and the copy it makes cover
  the whole range handed in. When the test \<open>nextVertex_ + dist >= kVertexCount\<close> holds,
  the store is orphaned first and the start is 0; the cursor ends at the start plus
  the length of the range.
\<close>

theorem AddVertexData_never_fails:
  "\<exists>start b' pre mapped.
      AddVertexData drv szV b vs tr =
        (start, b',
         tr @ pre @
           [MapBufferRange GL_ARRAY_BUFFER (start * szV) (word_of_nat (length vs) * szV)
              (or GL_MAP_WRITE_BIT GL_MAP_UNSYNCHRONIZED_BIT),
            CopyToMapped mapped vs,
            UnmapBuffer GL_ARRAY_BUFFER])
    \<and> nextVertex' b' = start + word_of_nat (length vs)
    \<and> (if kVertexCount \<le> nextVertex' b + word_of_nat (length vs)
        then start = 0
           \<and> pre = [BindBuffer GL_ARRAY_BUFFER (VertexBuffer_vbo' b),
                    BufferData GL_ARRAY_BUFFER (kVertexCount * szV) None kBufferType]
        else start = nextVertex' b
           \<and> pre = [BindBuffer GL_ARRAY_BUFFER (VertexBuffer_vbo' b)])
    \<and> (\<exists>p' tr'. do_call drv szV (Call_addVertexData vs)
                    (p\<lparr>ShaderProgram_vbo' := b\<rparr>) tr = (Returned_start start, p', tr'))"
  by (simp add: AddVertexData_unfold addVertexData_def)

theorem AddVertexData_never_fails_witness:
  "kVertexCount \<le> nextVertex' buffer_nearly_full + word_of_nat (length [1, 2, 3, 4, 5, 6 :: nat])
   \<and> AddVertexData driver_ok 16 buffer_nearly_full [1, 2, 3, 4, 5, 6] [] =
       (0, buffer_nearly_full\<lparr>nextVertex' := 6\<rparr>,
        [BindBuffer GL_ARRAY_BUFFER 8,
         BufferData GL_ARRAY_BUFFER (kVertexCount * 16) None kBufferType,
         MapBufferRange GL_ARRAY_BUFFER 0 96 (or GL_MAP_WRITE_BIT GL_MAP_UNSYNCHRONIZED_BIT),
         CopyToMapped 4096 [1, 2, 3, 4, 5, 6],
         UnmapBuffer GL_ARRAY_BUFFER])
   \<and> fst (do_call driver_ok 16 (Call_addVertexData [1, 2, 3, 4, 5, 6])
            (program_ok\<lparr>ShaderProgram_vbo' := buffer_nearly_full\<rparr>) []) = Returned_start 0"
proof -
  have full: "kVertexCount \<le>
      nextVertex' buffer_nearly_full + word_of_nat (length [1, 2, 3, 4, 5, 6 :: nat])"
    by (simp add: buffer_nearly_full_def kVertexCount_eq)
  have run: "AddVertexData driver_ok 16 buffer_nearly_full [1, 2, 3, 4, 5, 6] [] =
       (0, buffer_nearly_full\<lparr>nextVertex' := 6\<rparr>,
        [BindBuffer GL_ARRAY_BUFFER 8,
         BufferData GL_ARRAY_BUFFER (kVertexCount * 16) None kBufferType,
         MapBufferRange GL_ARRAY_BUFFER 0 96 (or GL_MAP_WRITE_BIT GL_MAP_UNSYNCHRONIZED_BIT),
         CopyToMapped 4096 [1, 2, 3, 4, 5, 6],
         UnmapBuffer GL_ARRAY_BUFFER])"
    by (simp add: AddVertexData_unfold buffer_nearly_full_def kVertexCount_eq driver_ok_def)
  from AddVertexData_never_fails
    [of driver_ok 16 buffer_nearly_full "[1, 2, 3, 4, 5, 6]" "[]" program_ok] full run
  have "fst (do_call driver_ok 16 (Call_addVertexData [1, 2, 3, 4, 5, 6])
            (program_ok\<lparr>ShaderProgram_vbo' := buffer_nearly_full\<rparr>) []) = Returned_start 0"
    by auto
  with full run show ?thesis by simp
qed

text \<open>
  C6. \<open>vertexAttrib\<close> returns the attribute whose offset is the byte offset of the
  member in the enclosing type, wherever the local instance \<open>e\<close> lives, and whose size,
  type, normalized flag and name are the arguments.
\<close>

theorem vertexAttrib_fields:
  "vertexAttrib addr_e sz ty norm member nm =
     \<lparr>attr_size = sz, attr_type = ty, attr_normalized = norm, attr_offset = member,
      attr_name = nm\<rparr>"
  by (simp add: vertexAttrib_def)

text \<open>
  C7. For a \<open>Shader\<close>, a \<open>VertexBuffer\<close> and a \<open>ShaderProgram\<close>: from before the
  constructor to after any use of the object no delete call is made, and destroying
  the object makes exactly one delete call for each handle it owns: the shader; the
  buffer object and the vertex-array object; for a program its buffer object,
  vertex-array object, fragment shader, vertex shader and the program itself, the
  handles being those the constructor stored.
\<close>

theorem deletion_only_at_destruction:
  "(Shader_ctor drv kType src tr_start = (Inr sh, tr_built) \<longrightarrow>
       filter is_delete (calls_since tr_start tr_built) = []
     \<and> filter is_delete (calls_since tr_start (Shader_dtor sh tr_built)) = [DeleteShader (Shader_id' sh)])
 \<and> (VertexBuffer_ctor drv szV program attribs vertexCount bufferType initialData tr_start = (vb, tr_built)
      \<longrightarrow>
       filter is_delete
         (calls_since tr_start (UpdateData szV vb vtx_offset vtx_count vertices tr_built)) = []
     \<and> filter is_delete
         (calls_since tr_start
            (VertexBuffer_dtor vb (UpdateData szV vb vtx_offset vtx_count vertices tr_built))) =
         [DeleteBuffers 1 (VertexBuffer_vbo' vb), DeleteVertexArrays 1 (vao' vb)])
 \<and> (ShaderProgram_ctor drv szV vertexSrc fragmentSrc attribs tr_start = (Inr p_built, tr_built)
      \<and> do_calls drv szV cs p_built tr_built = (rs, p, tr_used) \<longrightarrow>
       filter is_delete (calls_since tr_start tr_used) = []
     \<and> filter is_delete (calls_since tr_start (ShaderProgram_dtor p tr_used)) =
         [DeleteBuffers 1 (VertexBuffer_vbo' (ShaderProgram_vbo' p_built)),
          DeleteVertexArrays 1 (vao' (ShaderProgram_vbo' p_built)),
          DeleteShader (Shader_id' (fragment' p_built)),
          DeleteShader (Shader_id' (vertex' p_built)),
          DeleteProgram (ShaderProgram_id' p_built)])"
proof (intro conjI impI)
  assume ctor: "Shader_ctor drv kType src tr_start = (Inr sh, tr_built)"
  from Shader_ctor_Inr(3) [OF ctor]
  show "filter is_delete (calls_since tr_start tr_built) = []"
    and "filter is_delete (calls_since tr_start (Shader_dtor sh tr_built)) = [DeleteShader (Shader_id' sh)]"
    by (simp_all add: calls_since_def dtor_unfold)
next
  assume ctor: "VertexBuffer_ctor drv szV program attribs vertexCount bufferType initialData tr_start =
                  (vb, tr_built)"
  from VertexBuffer_ctor_trace [OF ctor] obtain ev where
    ev: "tr_built = tr_start @ ev" "filter is_delete ev = []"
    by blast
  then show "filter is_delete
         (calls_since tr_start (UpdateData szV vb vtx_offset vtx_count vertices tr_built)) = []"
    and "filter is_delete
         (calls_since tr_start
            (VertexBuffer_dtor vb (UpdateData szV vb vtx_offset vtx_count vertices tr_built))) =
         [DeleteBuffers 1 (VertexBuffer_vbo' vb), DeleteVertexArrays 1 (vao' vb)]"
    by (simp_all add: calls_since_def dtor_unfold UpdateData_def bind_def)
next
  assume both: "ShaderProgram_ctor drv szV vertexSrc fragmentSrc attribs tr_start = (Inr p_built, tr_built)
      \<and> do_calls drv szV cs p_built tr_built = (rs, p, tr_used)"
  then have ctor: "ShaderProgram_ctor drv szV vertexSrc fragmentSrc attribs tr_start = (Inr p_built, tr_built)"
    and calls: "do_calls drv szV cs p_built tr_built = (rs, p, tr_used)"
    by simp_all
  from ShaderProgram_ctor_Inr(5) [OF ctor] obtain ev1 where
    ev1: "tr_built = tr_start @ ev1" "filter is_delete ev1 = []"
    by blast
  from do_calls_trace [OF calls, of 0 "[]"] obtain ev2 where
    ev2: "tr_used = tr_built @ ev2" "filter is_delete ev2 = []"
    by blast
  have since: "calls_since tr_start tr_used = ev1 @ ev2"
    using ev1(1) ev2(1) by (simp add: calls_since_def)
  show alive: "filter is_delete (calls_since tr_start tr_used) = []"
    using since ev1(2) ev2(2) by simp
  have "calls_since tr_start (ShaderProgram_dtor p tr_used) =
          (ev1 @ ev2) @
          [DeleteBuffers 1 (VertexBuffer_vbo' (ShaderProgram_vbo' p)),
           DeleteVertexArrays 1 (vao' (ShaderProgram_vbo' p)),
           DeleteShader (Shader_id' (fragment' p)),
           DeleteShader (Shader_id' (vertex' p)),
           DeleteProgram (ShaderProgram_id' p)]"
    using ev1(1) ev2(1) by (simp add: calls_since_def dtor_unfold)
  then show "filter is_delete (calls_since tr_start (ShaderProgram_dtor p tr_used)) =
         [DeleteBuffers 1 (VertexBuffer_vbo' (ShaderProgram_vbo' p_built)),
          DeleteVertexArrays 1 (vao' (ShaderProgram_vbo' p_built)),
          DeleteShader (Shader_id' (fragment' p_built)),
          DeleteShader (Shader_id' (vertex' p_built)),
          DeleteProgram (ShaderProgram_id' p_built)]"
    using ev1(2) ev2(2) do_calls_keeps [OF calls] by simp
qed

theorem deletion_only_at_destruction_witness:
  "Shader_ctor driver_ok GL_VERTEX_SHADER ''v'' [] =
     (Inr \<lparr>Shader_id' = 1\<rparr>,
      [CreateShader GL_VERTEX_SHADER, ShaderSource 1 1 ''v'' 1, CompileShader 1,
       GetShaderiv 1 GL_COMPILE_STATUS])
   \<and> filter is_delete
        (Shader_dtor \<lparr>Shader_id' = 1\<rparr>
           [CreateShader GL_VERTEX_SHADER, ShaderSource 1 1 ''v'' 1, CompileShader 1,
            GetShaderiv 1 GL_COMPILE_STATUS :: nat gl_call]) = [DeleteShader 1]
   \<and> VertexBuffer_ctor driver_ok 16 3 [] 4 GL_STREAM_DRAW None [] =
        (\<lparr>vao' = 7, VertexBuffer_vbo' = 8\<rparr>,
         [GenVertexArrays 1, GenBuffers 1, BindVertexArray 7, BindBuffer GL_ARRAY_BUFFER 8,
          BufferData GL_ARRAY_BUFFER 64 None GL_STREAM_DRAW])
   \<and> filter is_delete
        (VertexBuffer_dtor \<lparr>vao' = 7, VertexBuffer_vbo' = 8\<rparr>
           (UpdateData 16 \<lparr>vao' = 7, VertexBuffer_vbo' = 8\<rparr> 0 2 [10, 20]
              [GenVertexArrays 1, GenBuffers 1, BindVertexArray 7, BindBuffer GL_ARRAY_BUFFER 8,
               BufferData GL_ARRAY_BUFFER 64 None GL_STREAM_DRAW :: nat gl_call])) =
        [DeleteBuffers 1 8, DeleteVertexArrays 1 7]
   \<and> ShaderProgram_ctor driver_ok 16 ''v'' ''f'' [] [] = (Inr program_ok, snd built_ok)
   \<and> filter is_delete (snd (snd run_first)) = []
   \<and> filter is_delete (ShaderProgram_dtor (fst (snd run_first)) (snd (snd run_first))) =
        [DeleteBuffers 1 8, DeleteVertexArrays 1 7, DeleteShader 2, DeleteShader 1, DeleteProgram 3]"
proof -
  have sh: "Shader_ctor driver_ok GL_VERTEX_SHADER ''v'' [] =
     (Inr \<lparr>Shader_id' = 1\<rparr>,
      [CreateShader GL_VERTEX_SHADER, ShaderSource 1 1 ''v'' 1, CompileShader 1,
       GetShaderiv 1 GL_COMPILE_STATUS])"
    by (simp add: Shader_ctor_def driver_ok_def GL_TRUE_def Let_def)
  have vb: "VertexBuffer_ctor driver_ok 16 3 [] 4 GL_STREAM_DRAW None [] =
        (\<lparr>vao' = 7, VertexBuffer_vbo' = 8\<rparr>,
         [GenVertexArrays 1, GenBuffers 1, BindVertexArray 7, BindBuffer GL_ARRAY_BUFFER 8,
          BufferData GL_ARRAY_BUFFER 64 None GL_STREAM_DRAW])"
    by (simp add: VertexBuffer_ctor_def bind_def driver_ok_def Let_def)
  have built: "ShaderProgram_ctor driver_ok 16 ''v'' ''f'' [] [] = (Inr program_ok, snd built_ok)"
    using built_ok_eq by (simp add: built_ok_def)
  have calls: "do_calls driver_ok 16
        [Call_Use, Call_setUniform1i ''u'' 1, Call_addVertexData [10, 20, 30]]
        program_ok (snd built_ok) = (fst run_first, fst (snd run_first), snd (snd run_first))"
    by (simp add: run_first_def)
  note parts = deletion_only_at_destruction
    [where drv = driver_ok and tr_start = "[]" and kType = GL_VERTEX_SHADER and src = "''v''"
       and sh = "\<lparr>Shader_id' = 1\<rparr>"
       and szV = 16 and program = 3 and attribs = "[]" and vertexCount = 4
       and bufferType = GL_STREAM_DRAW and initialData = None
       and vb = "\<lparr>vao' = 7, VertexBuffer_vbo' = 8\<rparr>"
       and vtx_offset = 0 and vtx_count = 2 and vertices = "[10, 20]"
       and vertexSrc = "''v''" and fragmentSrc = "''f''" and p_built = program_ok
       and cs = "[Call_Use, Call_setUniform1i ''u'' 1, Call_addVertexData [10, 20, 30]]"
       and rs = "fst run_first" and p = "fst (snd run_first)" and tr_used = "snd (snd run_first)"]
  have a: "filter is_delete
        (Shader_dtor \<lparr>Shader_id' = 1\<rparr>
           [CreateShader GL_VERTEX_SHADER, ShaderSource 1 1 ''v'' 1, CompileShader 1,
            GetShaderiv 1 GL_COMPILE_STATUS :: nat gl_call]) = [DeleteShader 1]"
    using parts [THEN conjunct1, rule_format, OF sh] by (simp add: calls_since_def)
  have b: "filter is_delete
        (VertexBuffer_dtor \<lparr>vao' = 7, VertexBuffer_vbo' = 8\<rparr>
           (UpdateData 16 \<lparr>vao' = 7, VertexBuffer_vbo' = 8\<rparr> 0 2 [10, 20]
              [GenVertexArrays 1, GenBuffers 1, BindVertexArray 7, BindBuffer GL_ARRAY_BUFFER 8,
               BufferData GL_ARRAY_BUFFER 64 None GL_STREAM_DRAW :: nat gl_call])) =
        [DeleteBuffers 1 8, DeleteVertexArrays 1 7]"
    using parts [THEN conjunct2, THEN conjunct1, rule_format, OF vb] by (simp add: calls_since_def)
  have c: "filter is_delete (snd (snd run_first)) = []
     \<and> filter is_delete (ShaderProgram_dtor (fst (snd run_first)) (snd (snd run_first))) =
        [DeleteBuffers 1 8, DeleteVertexArrays 1 7, DeleteShader 2, DeleteShader 1, DeleteProgram 3]"
    using parts [THEN conjunct2, THEN conjunct2, rule_format, OF conjI [OF built calls]]
    by (simp add: calls_since_def program_ok_def)
  from sh a vb b built c show ?thesis by simp
qed

text \<open>
  C8. On a buffer reached from its constructor by any sequence of \<open>AddVertexData\<close>
  calls, a call with at most \<open>kVertexCount\<close> vertices returns a start such that start
  plus count is at most \<open>kVertexCount\<close>. For a call with more vertices than
  \<open>kVertexCount\<close> the region written ends beyond \<open>kVertexCount\<close>.
\<close>

theorem AddVertexData_region_within_capacity:
  assumes fresh: "nextVertex' b0 = 0"
      and hist: "\<forall>vs \<in> set history. valid_range vs"
      and reached: "AddVertexData_seq drv szV history b0 tr0 = (b, tr)"
      and rng: "valid_range vs"
      and call: "AddVertexData drv szV b vs tr = (start, b', tr')"
  shows "(length vs \<le> unat kVertexCount \<longrightarrow> unat start + length vs \<le> unat kVertexCount)
       \<and> (unat kVertexCount < length vs \<longrightarrow> unat kVertexCount < unat start + length vs)"
proof -
  have sum: "unat (nextVertex' b) + length vs < 2 ^ 64"
    using reached_sum [OF fresh hist reached rng] .
  have cap: "unat kVertexCount = 65536" by (simp add: kVertexCount_eq)
  have "length vs \<le> 65536 \<Longrightarrow> unat start + length vs \<le> 65536"
  proof (cases "65536 \<le> unat (nextVertex' b) + length vs")
    case True
    assume "length vs \<le> 65536"
    from True have "kVertexCount \<le> nextVertex' b + word_of_nat (length vs)"
      using overflow_test [OF sum] by simp
    with call have "start = 0" by (auto simp: AddVertexData_unfold)
    with \<open>length vs \<le> 65536\<close> show ?thesis by simp
  next
    case False
    then have "\<not> kVertexCount \<le> nextVertex' b + word_of_nat (length vs)"
      using overflow_test [OF sum] by simp
    with call have "start = nextVertex' b" by (auto simp: AddVertexData_unfold)
    with False show ?thesis by simp
  qed
  with cap show ?thesis by simp
qed

theorem AddVertexData_region_within_capacity_witness:
  "nextVertex' buffer_ok = 0
   \<and> valid_range (replicate 65530 (0::nat))
   \<and> valid_range [1, 2, 3, 4, 5, 6 :: nat]
   \<and> length [1, 2, 3, 4, 5, 6 :: nat] \<le> unat kVertexCount
   \<and> unat (fst (AddVertexData driver_ok 16 (fst buffer_filled) [1, 2, 3, 4, 5, 6]
                  (snd buffer_filled))) + length [1, 2, 3, 4, 5, 6 :: nat] \<le> unat kVertexCount
   \<and> valid_range (replicate 65537 (0::nat))
   \<and> unat kVertexCount < length (replicate 65537 (0::nat))
   \<and> unat kVertexCount <
       unat (fst (AddVertexData driver_ok 16 (fst buffer_filled) (replicate 65537 0)
                    (snd buffer_filled))) + length (replicate 65537 (0::nat))"
proof -
  have fresh: "nextVertex' buffer_ok = 0" by (simp add: buffer_ok_def)
  have hist: "\<forall>vs \<in> set [replicate 65530 (0::nat)]. valid_range vs"
    by (simp add: valid_range_def)
  have reached: "AddVertexData_seq driver_ok 16 [replicate 65530 0] buffer_ok [] =
                   (fst buffer_filled, snd buffer_filled)"
    by (simp add: buffer_filled_def)
  have small: "valid_range [1, 2, 3, 4, 5, 6 :: nat]" by (simp add: valid_range_def)
  have large: "valid_range (replicate 65537 (0::nat))" by (simp add: valid_range_def)
  have fits: "length [1, 2, 3, 4, 5, 6 :: nat] \<le> unat kVertexCount"
    by (simp add: kVertexCount_eq)
  have exceeds: "unat kVertexCount < length (replicate 65537 (0::nat))"
    by (simp add: kVertexCount_eq)
  have call_small:
    "AddVertexData driver_ok 16 (fst buffer_filled) [1, 2, 3, 4, 5, 6] (snd buffer_filled) =
     (fst (AddVertexData driver_ok 16 (fst buffer_filled) [1, 2, 3, 4, 5, 6] (snd buffer_filled)),
      fst (snd (AddVertexData driver_ok 16 (fst buffer_filled) [1, 2, 3, 4, 5, 6] (snd buffer_filled))),
      snd (snd (AddVertexData driver_ok 16 (fst buffer_filled) [1, 2, 3, 4, 5, 6] (snd buffer_filled))))"
    by simp
  have call_large:
    "AddVertexData driver_ok 16 (fst buffer_filled) (replicate 65537 0) (snd buffer_filled) =
     (fst (AddVertexData driver_ok 16 (fst buffer_filled) (replicate 65537 0) (snd buffer_filled)),
      fst (snd (AddVertexData driver_ok 16 (fst buffer_filled) (replicate 65537 0) (snd buffer_filled))),
      snd (snd (AddVertexData driver_ok 16 (fst buffer_filled) (replicate 65537 0) (snd buffer_filled))))"
    by simp
  from AddVertexData_region_within_capacity [OF fresh hist reached small call_small] fits
  have a: "unat (fst (AddVertexData driver_ok 16 (fst buffer_filled) [1, 2, 3, 4, 5, 6]
                  (snd buffer_filled))) + length [1, 2, 3, 4, 5, 6 :: nat] \<le> unat kVertexCount"
    by blast
  from AddVertexData_region_within_capacity [OF fresh hist reached large call_large] exceeds
  have b: "unat kVertexCount <
       unat (fst (AddVertexData driver_ok 16 (fst buffer_filled) (replicate 65537 0)
                    (snd buffer_filled))) + length (replicate 65537 (0::nat))"
    by blast
  from fresh hist small large fits exceeds a b show ?thesis by simp
qed

text \<open>
  C9. When \<open>getUniformId\<close> throws, the name was not cached before, and the entry
  \<open>name \<mapsto> -1\<close> is in the cache after the throw. After any further calls on the same
  program a lookup of the name returns \<open>-1\<close> from the cache without throwing and
  without a driver query, and each of the four setters hands \<open>-1\<close> to the driver's
  uniform-set call.
\<close>

theorem getUniformId_throw_caches_sentinel:
  assumes throw: "getUniformId drv p nm tr = (Inl e, p1, tr1)"
      and later: "do_calls drv szV cs p1 tr1 = (rs, p2, tr2)"
  shows "uniform_cache' p nm = None
       \<and> uniform_cache' p1 nm = Some (- 1)
       \<and> getUniformId drv p2 nm tr2 = (Inr (- 1), p2, tr2)
       \<and> setUniformMat4f drv p2 nm matrix tr2 =
            (Inr (), p2, tr2 @ [UniformMatrix4fv (- 1) 1 GL_FALSE matrix])
       \<and> setUniform1i drv p2 nm i tr2 = (Inr (), p2, tr2 @ [Uniform1i (- 1) i])
       \<and> setUniform1f drv p2 nm f tr2 = (Inr (), p2, tr2 @ [Uniform1f (- 1) f])
       \<and> setUniform4fv drv p2 nm f0 f1 f2 f3 tr2 =
            (Inr (), p2, tr2 @ [Uniform4f (- 1) f0 f1 f2 f3])"
proof -
  from getUniformId_Inl [OF throw] have
    miss: "uniform_cache' p nm = None" and
    p1: "p1 = p\<lparr>uniform_cache' := (uniform_cache' p)(nm \<mapsto> - 1)\<rparr>"
    by simp_all
  from p1 have cached1: "uniform_cache' p1 nm = Some (- 1)" by simp
  with do_calls_keeps [OF later] have cached2: "uniform_cache' p2 nm = Some (- 1)" by blast
  have hit: "getUniformId drv p2 nm tr2 = (Inr (- 1), p2, tr2)"
    using cached2 by (rule getUniformId_hit)
  show ?thesis
    using miss cached1 hit
    by (simp add: setUniformMat4f_def setUniform1i_def setUniform1f_def setUniform4fv_def)
qed

theorem getUniformId_throw_caches_sentinel_witness:
  "getUniformId driver_ok program_ok ''w'' [] =
     (Inl (runtime_error ''uniform w nonexistent or inactive''),
      program_ok\<lparr>uniform_cache' := [''w'' \<mapsto> - 1]\<rparr>,
      [GetUniformLocation 3 ''w''])
   \<and> do_calls driver_ok 16 [Call_Use]
        (program_ok\<lparr>uniform_cache' := [''w'' \<mapsto> - 1]\<rparr>) [GetUniformLocation 3 ''w''] =
      ([Returned], program_ok\<lparr>uniform_cache' := [''w'' \<mapsto> - 1]\<rparr>,
       [GetUniformLocation 3 ''w'', UseProgram 3])
   \<and> setUniform1i driver_ok (program_ok\<lparr>uniform_cache' := [''w'' \<mapsto> - 1]\<rparr>) ''w'' 9
        [GetUniformLocation 3 ''w'', UseProgram 3] =
      (Inr (), program_ok\<lparr>uniform_cache' := [''w'' \<mapsto> - 1]\<rparr>,
       [GetUniformLocation 3 ''w'', UseProgram 3, Uniform1i (- 1) 9])"
proof -
  have throw: "getUniformId driver_ok program_ok ''w'' [] =
     (Inl (runtime_error ''uniform w nonexistent or inactive''),
      program_ok\<lparr>uniform_cache' := [''w'' \<mapsto> - 1]\<rparr>,
      [GetUniformLocation 3 ''w''])"
    by (simp add: getUniformId_def emplace_def driver_ok_def program_ok_def)
  have later: "do_calls driver_ok 16 [Call_Use]
        (program_ok\<lparr>uniform_cache' := [''w'' \<mapsto> - 1]\<rparr>) [GetUniformLocation 3 ''w''] =
      ([Returned], program_ok\<lparr>uniform_cache' := [''w'' \<mapsto> - 1]\<rparr>,
       [GetUniformLocation 3 ''w'', UseProgram 3])"
    by (simp add: Use_def program_ok_def)
  from getUniformId_throw_caches_sentinel [OF throw later, of _ 9]
  have "setUniform1i driver_ok (program_ok\<lparr>uniform_cache' := [''w'' \<mapsto> - 1]\<rparr>) ''w'' 9
        [GetUniformLocation 3 ''w'', UseProgram 3] =
      (Inr (), program_ok\<lparr>uniform_cache' := [''w'' \<mapsto> - 1]\<rparr>,
       [GetUniformLocation 3 ''w'', UseProgram 3, Uniform1i (- 1) 9])"
    by simp
  with throw later show ?thesis by simp
qed

text \<open>
  C10. A \<open>Shader\<close> whose constructor returned holds a handle that is not zero: the
  assertion in \<open>Shader::id\<close> holds and \<open>id()\<close> returns that handle.
\<close>

theorem Shader_ctor_handle_nonzero:
  assumes "Shader_ctor drv kType src tr = (Inr sh, tr')"
  shows "Shader_id' sh \<noteq> 0 \<and> Shader_id sh = Inr (Shader_id' sh)"
  using assms
  by (auto simp: Shader_ctor_def Shader_id_def Let_def split: if_splits)

theorem Shader_ctor_handle_nonzero_witness:
  "Shader_ctor driver_ok GL_VERTEX_SHADER ''v'' [] =
     (Inr \<lparr>Shader_id' = 1\<rparr>,
      [CreateShader GL_VERTEX_SHADER, ShaderSource 1 1 ''v'' 1, CompileShader 1,
       GetShaderiv 1 GL_COMPILE_STATUS])
   \<and> Shader_id' \<lparr>Shader_id' = 1\<rparr> \<noteq> 0
   \<and> Shader_id \<lparr>Shader_id' = 1\<rparr> = Inr 1"
proof -
  have built: "Shader_ctor driver_ok GL_VERTEX_SHADER ''v'' [] =
     (Inr \<lparr>Shader_id' = 1\<rparr>,
      [CreateShader GL_VERTEX_SHADER, ShaderSource 1 1 ''v'' 1, CompileShader 1,
       GetShaderiv 1 GL_COMPILE_STATUS])"
    by (simp add: Shader_ctor_def driver_ok_def GL_TRUE_def Let_def)
  show ?thesis
    using built Shader_ctor_handle_nonzero [OF built] by simp
qed


end
